theory Spec2Isabelle
  imports Main
begin

section \<open>Go values shared by the packages\<close>

text \<open>
  A Go byte slice and a Go string are both sequences of bytes; a \<^typ>\<open>char\<close> is one byte.
\<close>

type_synonym bytes = string

text \<open>
  A run-time panic of the Go program is a value of the model: calling a method through a
  nil interface value, and a failed type assertion \<open>v.(T)\<close>.
\<close>

datatype fault = NilDereference | TypeAssertion

section \<open>Package tracing: spanError.go\<close>

text \<open>
  The Go interface \<open>error\<close> is modelled by the dynamic types an error value has in this
  repository: a plain message (\<open>errors.New\<close>), the sentinel \<open>ErrorDeviceNotFound\<close> of
  package device, whose identity the handlers compare against, and a pointer to the struct
  \<open>spanError\<close>, which implements \<open>error\<close> through its method \<open>Error()\<close>. A nil interface
  value is \<^term>\<open>None\<close>. The type \<open>tracing.Span\<close> is declared outside the sources at hand
  and no function here looks inside a span, so it is the type parameter \<open>'span\<close>.
\<close>

datatype 'span go_error =
    ErrorString string
  | ErrorDeviceNotFound
  | SpanErrorV "'span spanError"
and 'span spanError =
    SpanError (spanError_err: "'span go_error option") (spanError_spans: "'span list")

text \<open>
  Modelled from the spec: the sentinel \<open>ErrorDeviceNotFound\<close> is declared in package device
  outside the sources at hand; section 7 names its class \<open>DeviceNotFound\<close>. Only its
  identity is used below, never its text.
\<close>

definition ErrorDeviceNotFound_text :: string where
  "ErrorDeviceNotFound_text = ''DeviceNotFound''"

text \<open>
  \<open>func (se *spanError) Error() string { return se.err.Error() }\<close>: the call goes through
  the interface value \<open>se.err\<close> and panics when that is nil.
\<close>

fun Error :: "'span go_error \<Rightarrow> fault + string"
  and spanError_Error :: "'span spanError \<Rightarrow> fault + string" where
  "Error (ErrorString s) = Inr s"
| "Error ErrorDeviceNotFound = Inr ErrorDeviceNotFound_text"
| "Error (SpanErrorV se) = spanError_Error se"
| "spanError_Error (SpanError None sp) = Inl NilDereference"
| "spanError_Error (SpanError (Some e) sp) = Error e"

text \<open>\<open>e.Error()\<close> on an interface value \<open>e\<close> that may be nil.\<close>

definition error_Error :: "'span go_error option \<Rightarrow> fault + string" where
  "error_Error e = (case e of None \<Rightarrow> Inl NilDereference | Some x \<Rightarrow> Error x)"

definition NewSpanError :: "'span go_error option \<Rightarrow> 'span list \<Rightarrow> 'span spanError" where
  "NewSpanError e sp = SpanError e sp"

definition Spans :: "'span spanError \<Rightarrow> 'span list" where
  "Spans se = spanError_spans se"

definition Err :: "'span spanError \<Rightarrow> 'span go_error option" where
  "Err se = spanError_err se"

section \<open>Packages wrp, wrpendpoint and net/http, as wrphttp uses them\<close>

text \<open>
  Modelled from the spec: \<open>wrp.Format\<close> is declared outside the sources at hand; section 4.1
  asks for "at minimum two formats: a binary format and a text/debug format", and
  \<open>wrp.Msgpack\<close> is the one the handlers name.
\<close>

datatype format = JSON | Msgpack

text \<open>
  Modelled from the spec: \<open>wrp.Message\<close> is declared outside the sources at hand; section 3
  gives it "a destination identifier (string), a payload (opaque bytes), and a message-type
  discriminator".
\<close>

record message =
  Type :: int
  Destination :: string
  Payload :: bytes

text \<open>
  \<open>http.Header\<close> is a map from header names to lists of values. \<open>Set\<close>, \<open>Add\<close> and \<open>Get\<close>
  put a name into its canonical form first; the keys of the model are the canonical names.
\<close>

type_synonym header = "string \<rightharpoonup> string list"

definition Header_Set :: "header \<Rightarrow> string \<Rightarrow> string \<Rightarrow> header" where
  "Header_Set h k v = h(k \<mapsto> [v])"

definition Header_Add :: "header \<Rightarrow> string \<Rightarrow> string \<Rightarrow> header" where
  "Header_Add h k v = h(k \<mapsto> (case h k of None \<Rightarrow> [] | Some vs \<Rightarrow> vs) @ [v])"

text \<open>The fields of \<open>http.Request\<close> that the request encoders assign.\<close>

record http_request =
  Header :: header
  Body :: bytes
  ContentLength :: int

text \<open>
  \<open>http.ResponseWriter\<close> is an interface: the model keeps the calls made on it, in order,
  the error its \<open>Write\<close> returns for given bytes, and whether it also implements
  \<open>http.Flusher\<close>. The calls are \<open>Header().Set(name, value)\<close>,
  \<open>tracinghttp.HeadersForSpans(spans, timeLayout, Header())\<close>,
  \<open>httperror.Formatf(response, code, format, err)\<close>, \<open>Write\<close> (also through
  \<open>io.WriteString\<close>, \<open>fmt.Fprintf\<close> or an encoder) and \<open>Flush\<close>. The packages
  \<open>tracinghttp\<close> and \<open>httperror\<close> are outside the sources at hand, so a call to them is
  recorded with its arguments.
\<close>

datatype 'span rw_call =
    HeaderSet string string
  | HeadersForSpans "'span list" string
  | Formatf nat string "'span go_error option"
  | Write bytes
  | Flush

record 'span ResponseWriter =
  rw_calls :: "'span rw_call list"
  rw_Write_err :: "bytes \<Rightarrow> 'span go_error option"
  rw_Flusher :: bool

definition call :: "'span ResponseWriter \<Rightarrow> 'span rw_call list \<Rightarrow> 'span ResponseWriter" where
  "call w cs = w\<lparr>rw_calls := rw_calls w @ cs\<rparr>"

text \<open>The calls made on a writer since it was \<open>w\<close>.\<close>

definition written :: "'span ResponseWriter \<Rightarrow> 'span ResponseWriter \<Rightarrow> 'span rw_call list" where
  "written w w' = drop (length (rw_calls w)) (rw_calls w')"

text \<open>\<open>wrphttp.Entity\<close>: a decoded message, the format of its bytes, and those bytes.\<close>

record entity =
  Entity_Message :: message
  Entity_Format :: format
  Entity_Contents :: bytes

text \<open>
  The interfaces \<open>wrpendpoint.Request\<close> and \<open>wrpendpoint.Response\<close> are declared outside
  the sources at hand. An interface value is the record of what its methods return;
  \<open>Encode(output, format)\<close> yields the bytes it writes to \<open>output\<close> or an error.
\<close>

record 'span wrp_request =
  Request_Message :: message
  Request_Encode :: "format \<Rightarrow> 'span go_error + bytes"

record 'span wrp_response =
  Response_Message :: message
  Response_Spans :: "'span list"
  Response_Encode :: "format \<Rightarrow> 'span go_error + bytes"

text \<open>
  Modelled from the spec: \<open>wrpendpoint.Request.Destination()\<close> is declared outside the
  sources at hand; by the glossary the destination is "the identifier addressing which
  device a message targets", the destination field of the request's message.
\<close>

definition Request_Destination :: "'span wrp_request \<Rightarrow> string" where
  "Request_Destination r = Destination (Request_Message r)"

text \<open>
  The go-kit encoders receive an \<open>interface{}\<close> and assert its dynamic type. The closed set
  of variants is the one of section 9 of the spec; a pointer to an \<open>Entity\<close> is taken
  non-nil.
\<close>

datatype 'span payload =
    EntityV entity
  | RequestV "'span wrp_request"
  | ResponseV "'span wrp_response"
  | NilV

text \<open>What ends a call early: a panic, or the error the function returns.\<close>

datatype 'span failure = Panic fault | Failed "'span go_error"

text \<open>
  What \<open>wrphttp\<close> uses and the sources at hand do not declare: the constant
  \<open>DestinationHeader\<close> and the header name of the message type, \<open>Format.ContentType()\<close>,
  the name of a message type, the encoder made by \<open>wrp.NewEncoderBytes(&output, format)\<close>
  with its \<open>Encode\<close>, and the helper \<open>WriteMessagePayload\<close> (the header and the body
  bytes it leaves, and its error).
\<close>

record 'span wrphttp_env =
  DestinationHeader :: string
  MessageTypeHeader :: string
  ContentType :: "format \<Rightarrow> string"
  FriendlyName :: "int \<Rightarrow> string"
  NewEncoderBytes_Encode :: "format \<Rightarrow> message \<Rightarrow> 'span go_error + bytes"
  WriteMessagePayload :: "header \<Rightarrow> message \<Rightarrow> header \<times> bytes \<times> 'span go_error option"

text \<open>
  Modelled from the spec: \<open>AddMessageHeaders\<close> is declared outside the sources at hand.
  Section 6: "Header-style encoding: one reserved header per scalar Message field
  (destination, message type, and any transaction/correlation fields)".
\<close>

definition AddMessageHeaders :: "'span wrphttp_env \<Rightarrow> header \<Rightarrow> message \<Rightarrow> header" where
  "AddMessageHeaders env h m =
     Header_Set (Header_Set h (MessageTypeHeader env) (FriendlyName env (Type m)))
       (DestinationHeader env) (Destination m)"

section \<open>Package wrphttp: the request encoders\<close>

text \<open>
  A request encoder mutates the \<open>*http.Request\<close> it is given and returns an error. The
  model returns the request as the call leaves it, the failure if there is one, and, for
  \<open>EncodeRequest\<close>, the calls made to the wrp encoder, in order.
\<close>

definition EncodeRequest ::
  "'span wrphttp_env \<Rightarrow> format \<Rightarrow> http_request \<Rightarrow> 'span payload
     \<Rightarrow> (format \<times> message) list \<times> 'span failure option \<times> http_request" where
  "EncodeRequest env format component v =
     (case v of
        EntityV entity \<Rightarrow>
          if format = Entity_Format entity \<and> length (Entity_Contents entity) > 0 then
            ([], None,
             component\<lparr>Body := Entity_Contents entity,
                       ContentLength := int (length (Entity_Contents entity)),
                       Header := Header_Set
                         (Header_Set (Header component) ''Content-Type'' (ContentType env format))
                         (DestinationHeader env) (Destination (Entity_Message entity))\<rparr>)
          else
            (case NewEncoderBytes_Encode env format (Entity_Message entity) of
               Inl e \<Rightarrow> ([(format, Entity_Message entity)], Some (Failed e), component)
             | Inr transcoded \<Rightarrow>
                 ([(format, Entity_Message entity)], None,
                  component\<lparr>Body := transcoded,
                            ContentLength := int (length transcoded),
                            Header := Header_Set
                              (Header_Set (Header component) ''Content-Type'' (ContentType env format))
                              (DestinationHeader env) (Destination (Entity_Message entity))\<rparr>))
      | _ \<Rightarrow> ([], Some (Panic TypeAssertion), component))"

text \<open>
  The two nested loops over \<open>custom\<close>. A Go map is ranged over in no fixed order; the list is
  the order of one iteration.
\<close>

definition add_custom :: "header \<Rightarrow> (string \<times> string list) list \<Rightarrow> header" where
  "add_custom h custom =
     foldl (\<lambda>h1 (name, values). foldl (\<lambda>h2 v. Header_Add h2 name v) h1 values) h custom"

definition ClientEncodeRequestBody ::
  "'span wrphttp_env \<Rightarrow> format \<Rightarrow> (string \<times> string list) list \<Rightarrow> http_request
     \<Rightarrow> 'span payload \<Rightarrow> 'span failure option \<times> http_request" where
  "ClientEncodeRequestBody env format custom httpRequest v =
     (case v of
        RequestV wrpRequest \<Rightarrow>
          (case Request_Encode wrpRequest format of
             Inl e \<Rightarrow> (Some (Failed e), httpRequest)
           | Inr body \<Rightarrow>
               (None,
                httpRequest\<lparr>Header := Header_Set
                               (Header_Set (add_custom (Header httpRequest) custom)
                                  (DestinationHeader env) (Request_Destination wrpRequest))
                               ''Content-Type'' (ContentType env format),
                            ContentLength := int (length body),
                            Body := body\<rparr>))
      | _ \<Rightarrow> (Some (Panic TypeAssertion), httpRequest))"

definition ClientEncodeRequestHeaders ::
  "'span wrphttp_env \<Rightarrow> (string \<times> string list) list \<Rightarrow> http_request
     \<Rightarrow> 'span payload \<Rightarrow> 'span failure option \<times> http_request" where
  "ClientEncodeRequestHeaders env custom httpRequest v =
     (case v of
        RequestV wrpRequest \<Rightarrow>
          (case WriteMessagePayload env (Header httpRequest) (Request_Message wrpRequest) of
             (h, body, Some e) \<Rightarrow> (Some (Failed e), httpRequest\<lparr>Header := h\<rparr>)
           | (h, body, None) \<Rightarrow>
               (None,
                httpRequest\<lparr>Header := AddMessageHeaders env (add_custom h custom)
                                         (Request_Message wrpRequest),
                            ContentLength := int (length body),
                            Body := body\<rparr>))
      | _ \<Rightarrow> (Some (Panic TypeAssertion), httpRequest))"

section \<open>Package wrphttp: the response encoder\<close>

definition ServerEncodeResponseBody ::
  "'span wrphttp_env \<Rightarrow> string \<Rightarrow> format \<Rightarrow> 'span ResponseWriter \<Rightarrow> 'span payload
     \<Rightarrow> 'span failure option \<times> 'span ResponseWriter" where
  "ServerEncodeResponseBody env timeLayout format httpResponse v =
     (case v of
        ResponseV wrpResponse \<Rightarrow>
          (let w1 = call httpResponse [HeadersForSpans (Response_Spans wrpResponse) timeLayout] in
           case Response_Encode wrpResponse format of
             Inl e \<Rightarrow> (Some (Failed e), w1)
           | Inr output \<Rightarrow>
               (map_option Failed (rw_Write_err httpResponse output),
                call w1 [HeaderSet ''Content-Type'' (ContentType env format), Write output]))
      | _ \<Rightarrow> (Some (Panic TypeAssertion), httpResponse))"

section \<open>Package device: the message handler of handlers.go\<close>

text \<open>
  \<open>context.Context\<close>: the context of the inbound request, or one derived from a context
  with a timeout.
\<close>

datatype go_context = RequestContext | WithTimeout go_context int

text \<open>
  \<open>device.Response\<close> is declared outside the sources at hand; the handler reads its fields
  \<open>Error\<close> and \<open>Contents\<close>.
\<close>

record 'span Response =
  Response_Error :: "'span go_error option"
  Response_Contents :: bytes

text \<open>
  \<open>wrp.DecoderPool\<close> and \<open>wrp.EncoderPool\<close> are declared outside the sources at hand. A
  pool is its format and what its methods return: \<open>DecodeBytes(message, body)\<close> the decoded
  message or an error, \<open>EncodeBytes(&contents, message)\<close> the bytes it leaves in
  \<open>contents\<close> or an error, \<open>Encode(response, deviceResponse)\<close> the bytes it writes to the
  response and its error.
\<close>

record 'span DecoderPool =
  DecoderPool_Format :: format
  DecodeBytes :: "bytes \<Rightarrow> 'span go_error + message"

record 'span EncoderPool =
  EncoderPool_Format :: format
  EncodeBytes :: "message \<Rightarrow> 'span go_error + bytes"
  EncoderPool_Encode :: "'span Response \<Rightarrow> bytes \<times> 'span go_error option"

text \<open>
  The struct \<open>MessageHandler\<close>. \<open>RequestDecoders\<close> and \<open>Router\<close> are required and taken
  as set; the two encoder pools may be nil. Whichever logger is used, the model keeps the
  calls to \<open>logger.Error\<close>. The device request type is the parameter \<open>'req\<close>, made by
  \<open>NewRequest\<close>, which is declared outside the sources at hand, as is
  \<open>Format.ContentType()\<close>.
\<close>

record ('span, 'req) MessageHandler =
  RequestDecoders :: "'span DecoderPool"
  ResponseEncoders :: "'span EncoderPool option"
  DeviceEncoders :: "'span EncoderPool option"
  Router :: "'req \<Rightarrow> 'span Response option \<times> 'span go_error option"
  Timeout :: int

record ('span, 'req) device_env =
  Format_ContentType :: "format \<Rightarrow> string"
  NewRequest :: "message \<Rightarrow> bytes \<Rightarrow> go_context \<Rightarrow> 'span go_error + 'req"

text \<open>The inbound \<open>*http.Request\<close>: what \<open>ioutil.ReadAll(request.Body)\<close> returns.\<close>

record 'span inbound =
  ReadAll_body :: bytes
  ReadAll_err :: "'span go_error option"

text \<open>The calls the handler makes to its collaborators, with their arguments.\<close>

datatype 'req collaborator_call =
    EncodeBytes_call message
  | NewRequest_call message bytes go_context
  | Route_call 'req

type_synonym 'span log_entry = "string \<times> 'span go_error list"

text \<open>
  What serving one request leaves behind: the response writer, the log, the calls to the
  collaborators, and whether the deferred \<open>cancel()\<close> ran.
\<close>

record ('span, 'req) served =
  response :: "'span ResponseWriter"
  logged :: "'span log_entry list"
  collab_calls :: "'req collaborator_call list"
  cancelled :: bool

definition createContext :: "('span, 'req) MessageHandler \<Rightarrow> go_context \<times> bool" where
  "createContext mh =
     (if Timeout mh > 0 then (WithTimeout RequestContext (Timeout mh), True)
      else (RequestContext, False))"

definition decodeRequest ::
  "('span, 'req) MessageHandler \<Rightarrow> 'span inbound \<Rightarrow> 'span go_error + message \<times> bytes" where
  "decodeRequest mh request =
     (case ReadAll_err request of
        Some e \<Rightarrow> Inl e
      | None \<Rightarrow>
          (case DecodeBytes (RequestDecoders mh) (ReadAll_body request) of
             Inl e \<Rightarrow> Inl e
           | Inr message \<Rightarrow> Inr (message, ReadAll_body request)))"

definition ServeHTTP ::
  "('span, 'req) device_env \<Rightarrow> ('span, 'req) MessageHandler \<Rightarrow> 'span ResponseWriter
     \<Rightarrow> 'span inbound \<Rightarrow> ('span, 'req) served" where
  "ServeHTTP env mh w request =
     (let (ctx, cancel) = createContext mh in
      case decodeRequest mh request of
        Inl e \<Rightarrow>
          \<lparr>response = call w [Formatf 400 ''Could not decode WRP message: %s'' (Some e)],
           logged = [], collab_calls = [], cancelled = cancel\<rparr>
      | Inr (message, body) \<Rightarrow>
          (case (case DeviceEncoders mh of
                   None \<Rightarrow> ([], Inr body)
                 | Some pool \<Rightarrow> ([EncodeBytes_call message], EncodeBytes pool message)) of
             (cs, Inl e) \<Rightarrow>
               \<lparr>response = call w [Formatf 500 ''Could not encode WRP message: %s'' (Some e)],
                logged = [], collab_calls = cs, cancelled = cancel\<rparr>
           | (cs, Inr contents) \<Rightarrow>
               (case NewRequest env message contents ctx of
                  Inl e \<Rightarrow>
                    \<lparr>response =
                       call w [Formatf 400 ''Could not create device request: %s'' (Some e)],
                     logged = [], collab_calls = cs @ [NewRequest_call message contents ctx],
                     cancelled = cancel\<rparr>
                | Inr deviceRequest \<Rightarrow>
                    (let (deviceResponse, err) = Router mh deviceRequest;
                         cs' = cs @ [NewRequest_call message contents ctx,
                                     Route_call deviceRequest] in
                     case err of
                       Some e \<Rightarrow>
                         \<lparr>response =
                            call w [Formatf (if e = ErrorDeviceNotFound then 404 else 500)
                                      ''Could not process device request: %s'' err],
                          logged = [], collab_calls = cs', cancelled = cancel\<rparr>
                     | None \<Rightarrow>
                         (case deviceResponse of
                            None \<Rightarrow>
                              \<lparr>response = w, logged = [], collab_calls = cs', cancelled = cancel\<rparr>
                          | Some dr \<Rightarrow>
                              (case Response_Error dr of
                                 Some de \<Rightarrow>
                                   \<lparr>response =
                                      call w [Formatf 500 ''Device transaction failed: %s'' err],
                                    logged = [], collab_calls = cs', cancelled = cancel\<rparr>
                               | None \<Rightarrow>
                                   (case ResponseEncoders mh of
                                      Some pool \<Rightarrow>
                                        (let (output, eerr) = EncoderPool_Encode pool dr in
                                         \<lparr>response =
                                            call w [HeaderSet ''Content-Type''
                                                      (Format_ContentType env (EncoderPool_Format pool)),
                                                    Write output],
                                          logged =
                                            (case eerr of
                                               None \<Rightarrow> []
                                             | Some x \<Rightarrow>
                                                 [(''Error while encoding WRP response: %s'', [x])]),
                                          collab_calls = cs', cancelled = cancel\<rparr>)
                                    | None \<Rightarrow>
                                        \<lparr>response =
                                           call w [HeaderSet ''Content-Type''
                                                     (Format_ContentType env Msgpack),
                                                   Write (Response_Contents dr)],
                                         logged =
                                           (case rw_Write_err w (Response_Contents dr) of
                                              None \<Rightarrow> []
                                            | Some x \<Rightarrow>
                                                [(''Error while writing response contents: %s'', [x])]),
                                         collab_calls = cs', cancelled = cancel\<rparr>)))))))"

text \<open>
  The block of lines 85 to 97 of \<open>ServeHTTP\<close> on its own, to state lemmas with: the calls
  to the device encoder and the contents it leaves, or its error.
\<close>

definition device_contents ::
  "('span, 'req) MessageHandler \<Rightarrow> message \<Rightarrow> bytes
     \<Rightarrow> 'req collaborator_call list \<times> ('span go_error + bytes)" where
  "device_contents mh m body =
     (case DeviceEncoders mh of
        None \<Rightarrow> ([], Inr body)
      | Some pool \<Rightarrow> ([EncodeBytes_call m], EncodeBytes pool m))"

text \<open>The status codes of the error writes among some calls on a response writer.\<close>

fun status_of :: "'span rw_call \<Rightarrow> nat option" where
  "status_of (Formatf code f a) = Some code"
| "status_of _ = None"

definition error_writes :: "'span rw_call list \<Rightarrow> nat list" where
  "error_writes cs = List.map_filter status_of cs"

section \<open>Package device: the device list handler of handlers.go\<close>

text \<open>The double quote, which a string literal of this theory cannot hold.\<close>

definition dquote :: char where
  "dquote = CHR 0x22"

text \<open>
  What the verb \<open>%s\<close> of package \<open>fmt\<close> prints for a non-nil error: the result of its
  \<open>Error()\<close>; \<open>fmt\<close> recovers from a panic of that method and prints a note in its place.
\<close>

definition Sprint_error :: "'span go_error \<Rightarrow> string" where
  "Sprint_error e =
     (case Error e of
        Inr s \<Rightarrow> s
      | Inl f \<Rightarrow> ''%!s(PANIC=Error method: runtime error: invalid memory address or nil pointer dereference)'')"

text \<open>
  The interface \<open>device.Interface\<close> and the \<open>Manager\<close> are declared outside the sources at
  hand. A device is a value of the type parameter \<open>'d\<close>; the environment gives its \<open>ID()\<close>
  and what \<open>json.Marshal\<close> returns for it. What \<open>manager.VisitAll\<close> does is the list of
  the devices it passes to the visitor, in order.
\<close>

record ('span, 'd) listing_env =
  device_ID :: "'d \<Rightarrow> string"
  json_Marshal :: "'d \<Rightarrow> 'span go_error + bytes"

text \<open>The two tokens the handler writes around the entries.\<close>

definition open_token :: bytes where
  "open_token = CHR ''{'' # dquote # ''device'' @ dquote # '': [''"

definition close_token :: bytes where
  "close_token = '']}''"

text \<open>
  The handler runs two goroutines. The main one visits the devices and sends each to the
  channel \<open>devices\<close>, closes the channel, waits for \<open>finish\<close> and writes the closing
  token; it can also have returned early or panicked before the other one was started.
  The other one ranges over the channel: it waits for a device, holds one, or has left
  the loop and run the deferred \<open>finish.Done()\<close>.
\<close>

datatype main_pc = Visiting | Waiting | Finished | Returned | Panicked

datatype 'd consumer_pc = NotStarted | Ranging | Holding 'd | Exited

text \<open>
  The state both goroutines act on: where each one is, the devices \<open>VisitAll\<close> has not
  passed to the visitor yet, the buffer of the channel and whether it is closed, the
  counter of the wait group, the variable \<open>needsDelimiter\<close>, the response writer and the
  log.
\<close>

record ('span, 'd) listing =
  main_at :: main_pc
  consumer_at :: "'d consumer_pc"
  unvisited :: "'d list"
  devices :: "'d list"
  closed :: bool
  finish :: nat
  needsDelimiter :: bool
  listing_response :: "'span ResponseWriter"
  listing_log :: "'span log_entry list"

text \<open>
  The handler up to the \<open>go\<close> statement, which no other goroutine interleaves with: the
  type assertion \<open>response.(http.Flusher)\<close>, which panics when it fails, the content type,
  the opening token, whose write error ends the handler, and the channel of capacity 100
  with the wait group at 1.
\<close>

definition NewDeviceListHandler ::
  "'span ResponseWriter \<Rightarrow> 'd list \<Rightarrow> ('span, 'd) listing" where
  "NewDeviceListHandler w ds =
     (if \<not> rw_Flusher w then
        \<lparr>main_at = Panicked, consumer_at = NotStarted, unvisited = ds, devices = [],
         closed = False, finish = 0, needsDelimiter = False,
         listing_response = w, listing_log = []\<rparr>
      else
        (case rw_Write_err w open_token of
           Some e \<Rightarrow>
             \<lparr>main_at = Returned, consumer_at = NotStarted, unvisited = ds, devices = [],
              closed = False, finish = 0, needsDelimiter = False,
              listing_response =
                call w [HeaderSet ''Content-Type'' ''application/json'', Write open_token],
              listing_log = [(''Unable to write content: %s'', [e])]\<rparr>
         | None \<Rightarrow>
             \<lparr>main_at = Visiting, consumer_at = Ranging, unvisited = ds, devices = [],
              closed = False, finish = 1, needsDelimiter = False,
              listing_response =
                call w [HeaderSet ''Content-Type'' ''application/json'', Write open_token],
              listing_log = []\<rparr>))"

text \<open>
  One step of the main goroutine, if it can take one. A send blocks while the buffer
  holds 100 devices; \<open>finish.Wait()\<close> blocks until the counter is 0; the closing token and
  the last flush follow the wait.
\<close>

definition main_step :: "('span, 'd) listing \<Rightarrow> ('span, 'd) listing option" where
  "main_step s =
     (case main_at s of
        Visiting \<Rightarrow>
          (case unvisited s of
             d # ds \<Rightarrow>
               if length (devices s) < 100
               then Some (s\<lparr>devices := devices s @ [d], unvisited := ds\<rparr>)
               else None
           | [] \<Rightarrow> Some (s\<lparr>closed := True, main_at := Waiting\<rparr>))
      | Waiting \<Rightarrow>
          if finish s = 0
          then Some (s\<lparr>listing_response := call (listing_response s) [Write close_token, Flush],
                       main_at := Finished\<rparr>)
          else None
      | _ \<Rightarrow> None)"

text \<open>The message for a device that \<open>json.Marshal\<close> fails on.\<close>

definition marshal_message :: "('span, 'd) listing_env \<Rightarrow> 'd \<Rightarrow> 'span go_error \<Rightarrow> string" where
  "marshal_message env d e =
     ''Unable to marshal device ['' @ device_ID env d @ ''] as JSON: '' @ Sprint_error e"

text \<open>The body of the loop \<open>for d := range devices\<close>, for the device \<open>d\<close>.\<close>

definition loop_body ::
  "('span, 'd) listing_env \<Rightarrow> ('span, 'd) listing \<Rightarrow> 'd \<Rightarrow> ('span, 'd) listing" where
  "loop_body env s d =
     (let w1 = (if needsDelimiter s then call (listing_response s) [Write '','']
                else listing_response s);
          s1 = s\<lparr>needsDelimiter := True\<rparr>;
          s2 = (case json_Marshal env d of
                  Inl e \<Rightarrow>
                    s1\<lparr>listing_log := listing_log s1 @ [(marshal_message env d e, [])],
                       listing_response := call w1 [Write (dquote # marshal_message env d e @ [dquote])]\<rparr>
                | Inr data \<Rightarrow> s1\<lparr>listing_response := call w1 [Write data]\<rparr>)
      in s2\<lparr>listing_response := call (listing_response s2) [Flush]\<rparr>)"

text \<open>
  One step of the goroutine that drains the channel, if it can take one: it receives a
  device, or runs the body of the loop for the device it holds, or leaves the loop when
  the channel is empty and closed. A receive blocks while the channel is empty and open.
\<close>

definition consumer_step ::
  "('span, 'd) listing_env \<Rightarrow> ('span, 'd) listing \<Rightarrow> ('span, 'd) listing option" where
  "consumer_step env s =
     (case consumer_at s of
        Ranging \<Rightarrow>
          (case devices s of
             d # rest \<Rightarrow> Some (s\<lparr>devices := rest, consumer_at := Holding d\<rparr>)
           | [] \<Rightarrow>
               if closed s then Some (s\<lparr>finish := finish s - 1, consumer_at := Exited\<rparr>)
               else None)
      | Holding d \<Rightarrow> Some ((loop_body env s d)\<lparr>consumer_at := Ranging\<rparr>)
      | _ \<Rightarrow> None)"

text \<open>The scheduler picks either goroutine at every step.\<close>

definition step ::
  "('span, 'd) listing_env \<Rightarrow> ('span, 'd) listing \<Rightarrow> ('span, 'd) listing \<Rightarrow> bool" where
  "step env s s' = (main_step s = Some s' \<or> consumer_step env s = Some s')"

definition stuck :: "('span, 'd) listing_env \<Rightarrow> ('span, 'd) listing \<Rightarrow> bool" where
  "stuck env s = (main_step s = None \<and> consumer_step env s = None)"

text \<open>
  One schedule, to run the handler with: the draining goroutine moves whenever it can. The
  number bounds the steps.
\<close>

fun run :: "nat \<Rightarrow> ('span, 'd) listing_env \<Rightarrow> ('span, 'd) listing \<Rightarrow> ('span, 'd) listing" where
  "run 0 env s = s"
| "run (Suc n) env s =
     (case consumer_step env s of
        Some s' \<Rightarrow> run n env s'
      | None \<Rightarrow> (case main_step s of Some s' \<Rightarrow> run n env s' | None \<Rightarrow> s))"

text \<open>The bytes that stand for one device in the listing.\<close>

definition entry :: "('span, 'd) listing_env \<Rightarrow> 'd \<Rightarrow> bytes" where
  "entry env d =
     (case json_Marshal env d of
        Inl e \<Rightarrow> dquote # marshal_message env d e @ [dquote]
      | Inr data \<Rightarrow> data)"

text \<open>
  The calls on the response writer that make a complete listing: the content type and the
  opening token, the first entry and its flush, then for every further device a comma, the
  entry and a flush, then the closing token and its flush.
\<close>

definition listing_calls :: "('span, 'd) listing_env \<Rightarrow> 'd list \<Rightarrow> 'span rw_call list" where
  "listing_calls env ds =
     [HeaderSet ''Content-Type'' ''application/json'', Write open_token]
     @ (case ds of
          [] \<Rightarrow> []
        | d # rest \<Rightarrow>
            [Write (entry env d), Flush]
            @ concat (map (\<lambda>x. [Write '','', Write (entry env x), Flush]) rest))
     @ [Write close_token, Flush]"

text \<open>The bytes of the response body: what the calls to \<open>Write\<close> wrote, in order.\<close>

fun payload_of :: "'span rw_call \<Rightarrow> bytes" where
  "payload_of (Write b) = b"
| "payload_of _ = []"

definition body_of :: "'span rw_call list \<Rightarrow> bytes" where
  "body_of cs = concat (map payload_of cs)"

definition listing_body :: "('span, 'd) listing_env \<Rightarrow> 'd list \<Rightarrow> bytes" where
  "listing_body env ds =
     open_token
     @ (case ds of [] \<Rightarrow> [] | d # rest \<Rightarrow> entry env d @ concat (map (\<lambda>x. '','' @ entry env x) rest))
     @ close_token"

text \<open>A measure that every step of either goroutine decreases.\<close>

definition weight :: "('span, 'd) listing \<Rightarrow> nat" where
  "weight s =
     3 * length (unvisited s) + 2 * length (devices s)
     + (case consumer_at s of Holding d \<Rightarrow> 2 | Exited \<Rightarrow> 0 | _ \<Rightarrow> 1)
     + (case main_at s of Visiting \<Rightarrow> 2 | Waiting \<Rightarrow> 1 | _ \<Rightarrow> 0)"

text \<open>
  For the invariant: the devices not yet written, the calls the draining goroutine makes
  for a list of devices, and the calls still to come in a state.
\<close>

definition pending :: "('span, 'd) listing \<Rightarrow> 'd list" where
  "pending s =
     (case consumer_at s of Holding d \<Rightarrow> [d] | _ \<Rightarrow> []) @ devices s @ unvisited s"

fun entries_calls :: "('span, 'd) listing_env \<Rightarrow> bool \<Rightarrow> 'd list \<Rightarrow> 'span rw_call list" where
  "entries_calls env nd [] = []"
| "entries_calls env nd (d # ds) =
     (if nd then [Write '',''] else []) @ [Write (entry env d), Flush] @ entries_calls env True ds"

definition to_come :: "('span, 'd) listing_env \<Rightarrow> ('span, 'd) listing \<Rightarrow> 'span rw_call list" where
  "to_come env s =
     entries_calls env (needsDelimiter s) (pending s)
     @ (if main_at s = Finished then [] else [Write close_token, Flush])"

text \<open>
  The invariant of the states the handler reaches once both goroutines run: the calls made
  so far followed by the calls still to come are the complete listing.
\<close>

definition listing_inv ::
  "('span, 'd) listing_env \<Rightarrow> 'span ResponseWriter \<Rightarrow> 'd list \<Rightarrow> ('span, 'd) listing \<Rightarrow> bool" where
  "listing_inv env w ds s =
     ((main_at s = Visiting \<or> main_at s = Waiting \<or> main_at s = Finished)
      \<and> consumer_at s \<noteq> NotStarted
      \<and> (main_at s = Visiting \<longrightarrow> \<not> closed s)
      \<and> (main_at s \<noteq> Visiting \<longrightarrow> closed s \<and> unvisited s = [])
      \<and> (consumer_at s = Exited \<longrightarrow> finish s = 0 \<and> closed s \<and> devices s = [])
      \<and> (consumer_at s \<noteq> Exited \<longrightarrow> finish s = 1)
      \<and> (main_at s = Finished \<longrightarrow> consumer_at s = Exited)
      \<and> length (devices s) \<le> 100
      \<and> rw_calls (listing_response s) @ to_come env s =
          rw_calls w @ [HeaderSet ''Content-Type'' ''application/json'', Write open_token]
          @ entries_calls env False ds @ [Write close_token, Flush])"

text \<open>
  Whether bytes are one JSON string (RFC 8259): a double quote, then characters none of
  which is a control character, each double quote and backslash among them escaped, then
  a double quote, and nothing after it.
\<close>

definition json_escapes :: "char list" where
  "json_escapes = [CHR 0x22, CHR 0x5C, CHR ''/'', CHR ''b'', CHR ''f'', CHR ''n'', CHR ''r'', CHR ''t'']"

definition hex_digit :: "char \<Rightarrow> bool" where
  "hex_digit c = (c \<in> set ''0123456789abcdefABCDEF'')"

fun json_string_tail :: "string \<Rightarrow> bool" where
  "json_string_tail [] = False"
| "json_string_tail (c # cs) =
     (if c = CHR 0x22 then cs = []
      else if c = CHR 0x5C then
        (case cs of
           [] \<Rightarrow> False
         | e # es \<Rightarrow>
             if e = CHR ''u''
             then 4 \<le> length es \<and> list_all hex_digit (take 4 es) \<and> json_string_tail (drop 4 es)
             else e \<in> set json_escapes \<and> json_string_tail es)
      else (0x20 :: nat) \<le> of_char c \<and> json_string_tail cs)"

definition json_string :: "string \<Rightarrow> bool" where
  "json_string s = (case s of [] \<Rightarrow> False | c # cs \<Rightarrow> c = CHR 0x22 \<and> json_string_tail cs)"

section \<open>Concrete values for the examples\<close>

definition example_env :: "unit wrphttp_env" where
  "example_env =
     \<lparr>DestinationHeader = ''X-Destination'',
      MessageTypeHeader = ''X-Message-Type'',
      ContentType = (\<lambda>f. case f of JSON \<Rightarrow> ''application/json'' | Msgpack \<Rightarrow> ''application/msgpack''),
      FriendlyName = (\<lambda>t. if t = 3 then ''SimpleRequestResponse'' else ''Unknown''),
      NewEncoderBytes_Encode =
        (\<lambda>f m. if Destination m = [] then Inl (ErrorString ''no destination'')
                else Inr (Destination m @ '':'' @ Payload m)),
      WriteMessagePayload = (\<lambda>h m. (h, Payload m, None))\<rparr>"

definition example_message :: message where
  "example_message = \<lparr>Type = 3, Destination = ''mac:112233445566'', Payload = ''ping''\<rparr>"

definition example_component :: http_request where
  "example_component = \<lparr>Header = Map.empty, Body = [], ContentLength = 0\<rparr>"

definition example_entity :: entity where
  "example_entity =
     \<lparr>Entity_Message = example_message, Entity_Format = Msgpack, Entity_Contents = ''cached''\<rparr>"

definition example_request :: "unit wrp_request" where
  "example_request =
     \<lparr>Request_Message = example_message,
      Request_Encode = (\<lambda>f. Inr (Destination example_message @ '':'' @ Payload example_message))\<rparr>"

text \<open>
  A handler whose decoder skips leading spaces and whose device encoder writes the
  destination, both for the same format, and a router that answers by destination.
\<close>

type_synonym example_req = "message \<times> bytes \<times> go_context"

definition example_decoders :: "unit DecoderPool" where
  "example_decoders =
     \<lparr>DecoderPool_Format = Msgpack,
      DecodeBytes =
        (\<lambda>b. if dropWhile (\<lambda>c. c = CHR '' '') b = [] then Inl (ErrorString ''unexpected EOF'')
              else Inr \<lparr>Type = 3, Destination = dropWhile (\<lambda>c. c = CHR '' '') b, Payload = []\<rparr>)\<rparr>"

definition example_encoders :: "unit EncoderPool" where
  "example_encoders =
     \<lparr>EncoderPool_Format = Msgpack,
      EncodeBytes = (\<lambda>m. Inr (Destination m)),
      EncoderPool_Encode = (\<lambda>r. (Response_Contents r, None))\<rparr>"

definition example_device_env :: "(unit, example_req) device_env" where
  "example_device_env =
     \<lparr>Format_ContentType =
        (\<lambda>f. case f of JSON \<Rightarrow> ''application/json'' | Msgpack \<Rightarrow> ''application/msgpack''),
      NewRequest = (\<lambda>m c ctx. Inr (m, c, ctx))\<rparr>"

definition example_Router ::
  "example_req \<Rightarrow> unit Response option \<times> unit go_error option" where
  "example_Router r =
     (case r of (m, c, ctx) \<Rightarrow>
        if Destination m = ''missing'' then (None, Some ErrorDeviceNotFound)
        else if Destination m = ''broken'' then (None, Some (ErrorString ''connection closed''))
        else if Destination m = ''failing'' then
          (Some \<lparr>Response_Error = Some (ErrorString ''boom''), Response_Contents = []\<rparr>, None)
        else if Destination m = ''silent'' then (None, None)
        else (Some \<lparr>Response_Error = None, Response_Contents = ''pong''\<rparr>, None))"

definition example_handler :: "(unit, example_req) MessageHandler" where
  "example_handler =
     \<lparr>RequestDecoders = example_decoders, ResponseEncoders = None,
      DeviceEncoders = Some example_encoders, Router = example_Router, Timeout = 0\<rparr>"

definition example_writer :: "unit ResponseWriter" where
  "example_writer = \<lparr>rw_calls = [], rw_Write_err = (\<lambda>b. None), rw_Flusher = True\<rparr>"

definition inbound_body :: "bytes \<Rightarrow> unit inbound" where
  "inbound_body b = \<lparr>ReadAll_body = b, ReadAll_err = None\<rparr>"

definition example_routed :: "string \<Rightarrow> example_req" where
  "example_routed d = (\<lparr>Type = 3, Destination = d, Payload = []\<rparr>, d, RequestContext)"

definition example_response :: "unit wrp_response" where
  "example_response =
     \<lparr>Response_Message = example_message, Response_Spans = [(), ()],
      Response_Encode = (\<lambda>f. Inr ''pong'')\<rparr>"

text \<open>
  Devices that are their identifiers; \<open>json.Marshal\<close> fails on an identifier that holds a
  double quote.
\<close>

definition example_listing_env :: "(unit, string) listing_env" where
  "example_listing_env =
     \<lparr>device_ID = (\<lambda>d. d),
      json_Marshal =
        (\<lambda>d. if dquote \<in> set d then Inl (ErrorString ''json: error calling MarshalJSON'')
              else Inr (CHR ''{'' # dquote # ''id'' @ dquote # '': '' @ dquote # d @ [dquote, CHR ''}'']))\<rparr>"

definition example_devices :: "string list" where
  "example_devices = [''mac:01'', ''mac:02'', ''mac:03'']"

definition quoted_device :: string where
  "quoted_device = [CHR ''a'', dquote, CHR ''b'']"

section \<open>Properties of package tracing\<close>

lemma spanError_Error_delegates: "spanError_Error (SpanError e sp) = error_Error e"
  by (cases e) (simp_all add: error_Error_def)

text \<open>
  C7. For every error \<open>err\<close>, nil included, and every sequence of spans, the value returned by
  \<open>NewSpanError(err, spans...)\<close> answers \<open>Error()\<close> exactly as \<open>err.Error()\<close> does,
  \<open>Spans()\<close> with the sequence it was given, unmodified and possibly empty, and \<open>Err()\<close>
  with \<open>err\<close> itself.
\<close>

theorem NewSpanError_carrier:
  "spanError_Error (NewSpanError e sp) = error_Error e
   \<and> Spans (NewSpanError e sp) = sp
   \<and> Err (NewSpanError e sp) = e"
  by (simp add: NewSpanError_def Spans_def Err_def spanError_Error_delegates)

text \<open>
  C9, as the claim states it, fails: a non-nil error whose own \<open>Error()\<close> panics makes
  \<open>Error()\<close> on the result panic too. Such an error is built with this file's own
  constructor: \<open>NewSpanError(NewSpanError(nil))\<close> wraps a non-nil \<open>*spanError\<close>.
\<close>

theorem NewSpanError_nonnil_counterexample:
  "Some (SpanErrorV (NewSpanError None ([] :: unit list))) \<noteq> None
   \<and> spanError_Error (NewSpanError (Some (SpanErrorV (NewSpanError None ([] :: unit list)))) [])
       = Inl NilDereference"
  by (simp add: NewSpanError_def)

text \<open>
  C9, amended. \<open>NewSpanError\<close> validates nothing: it returns a value for every argument.
  \<open>Error()\<close> on the result returns the message of \<open>err\<close> whenever \<open>err\<close> is non-nil and
  \<open>err.Error()\<close> itself returns; when \<open>err\<close> is nil it panics on the nil interface value.
\<close>

theorem NewSpanError_unvalidated:
  "(\<forall>e m. Error e = Inr m \<longrightarrow> spanError_Error (NewSpanError (Some e) sp) = Inr m)
   \<and> spanError_Error (NewSpanError None sp) = Inl NilDereference"
  by (simp add: NewSpanError_def)

theorem NewSpanError_unvalidated_witness:
  "Error (ErrorString ''boom'' :: unit go_error) = Inr ''boom''
   \<and> spanError_Error (NewSpanError (Some (ErrorString ''boom'')) ([] :: unit list)) = Inr ''boom''
   \<and> spanError_Error (NewSpanError None ([] :: unit list)) = Inl NilDereference"
  using NewSpanError_unvalidated [of "[] :: unit list"] by simp

section \<open>Properties of the request encoders\<close>

lemma Header_Set_same: "Header_Set h k v k = Some [v]"
  by (simp add: Header_Set_def)

lemma Header_Set_other: "k' \<noteq> k \<Longrightarrow> Header_Set h k v k' = h k'"
  by (simp add: Header_Set_def)

text \<open>
  C1. For every Entity given to the encoder made by \<open>EncodeRequest(format)\<close>: if its
  Contents are non-empty and its Format is the target format, the body of the request is
  exactly the Contents, the ContentLength is their length, and the wrp encoder is not
  called. Otherwise the encoder is called once, on the entity's Message and the target
  format; the bytes it yields become the body, with their length as ContentLength, and
  the error it returns, if it fails, is returned with the request untouched.
\<close>

theorem EncodeRequest_reuse_or_transcode:
  "(Entity_Contents entity \<noteq> [] \<and> Entity_Format entity = format \<longrightarrow>
      (case EncodeRequest env format component (EntityV entity) of
         (calls, failure, r) \<Rightarrow>
           calls = [] \<and> failure = None \<and> Body r = Entity_Contents entity
           \<and> ContentLength r = int (length (Entity_Contents entity))))
   \<and> (\<not> (Entity_Contents entity \<noteq> [] \<and> Entity_Format entity = format) \<longrightarrow>
      (case EncodeRequest env format component (EntityV entity) of
         (calls, failure, r) \<Rightarrow>
           calls = [(format, Entity_Message entity)]
           \<and> (case NewEncoderBytes_Encode env format (Entity_Message entity) of
                 Inr transcoded \<Rightarrow>
                   failure = None \<and> Body r = transcoded
                   \<and> ContentLength r = int (length transcoded)
               | Inl e \<Rightarrow> failure = Some (Failed e) \<and> r = component)))"
  by (auto simp add: EncodeRequest_def split: sum.splits)

theorem EncodeRequest_reuse_or_transcode_witness:
  "(Entity_Contents example_entity \<noteq> [] \<and> Entity_Format example_entity = Msgpack)
   \<and> (case EncodeRequest example_env Msgpack example_component (EntityV example_entity) of
         (calls, failure, r) \<Rightarrow> calls = [] \<and> failure = None \<and> Body r = ''cached'' \<and> ContentLength r = 6)
   \<and> \<not> (Entity_Contents example_entity \<noteq> [] \<and> Entity_Format example_entity = JSON)
   \<and> (case EncodeRequest example_env JSON example_component (EntityV example_entity) of
         (calls, failure, r) \<Rightarrow>
           calls = [(JSON, example_message)] \<and> failure = None
           \<and> Body r = ''mac:112233445566:ping'' \<and> ContentLength r = 21)"
proof -
  have reuse: "Entity_Contents example_entity \<noteq> [] \<and> Entity_Format example_entity = Msgpack"
    by (simp add: example_entity_def)
  have differs: "\<not> (Entity_Contents example_entity \<noteq> [] \<and> Entity_Format example_entity = JSON)"
    by (simp add: example_entity_def)
  have enc: "NewEncoderBytes_Encode example_env JSON (Entity_Message example_entity)
               = Inr ''mac:112233445566:ping''"
    by (simp add: example_env_def example_entity_def example_message_def)
  have len: "Entity_Contents example_entity = ''cached''" "Entity_Message example_entity = example_message"
    by (simp_all add: example_entity_def)
  show ?thesis
    using reuse differs enc len
      EncodeRequest_reuse_or_transcode
        [where entity = example_entity and format = Msgpack and env = example_env
           and component = example_component]
      EncodeRequest_reuse_or_transcode
        [where entity = example_entity and format = JSON and env = example_env
           and component = example_component]
    by (simp split: prod.splits)
qed

text \<open>
  C6. Every request a request encoder produces, that is, whenever it returns no error,
  carries the destination header with the destination of the message as its only value:
  for \<open>EncodeRequest\<close> also when the cached bytes are reused as the body, for
  \<open>ClientEncodeRequestBody\<close> whatever the custom headers are, the reserved name not being
  \<open>Content-Type\<close>, and for \<open>ClientEncodeRequestHeaders\<close> through \<open>AddMessageHeaders\<close>.
\<close>

theorem destination_header_always_set:
  "(case EncodeRequest env format component (EntityV entity) of
      (calls, failure, r) \<Rightarrow>
        failure = None \<longrightarrow>
          Header r (DestinationHeader env) = Some [Destination (Entity_Message entity)])
   \<and> (DestinationHeader env \<noteq> ''Content-Type'' \<longrightarrow>
        (case ClientEncodeRequestBody env format custom httpRequest (RequestV q) of
           (failure, r) \<Rightarrow>
             failure = None \<longrightarrow>
               Header r (DestinationHeader env) = Some [Destination (Request_Message q)]))
   \<and> (case ClientEncodeRequestHeaders env custom httpRequest (RequestV q) of
        (failure, r) \<Rightarrow>
          failure = None \<longrightarrow>
            Header r (DestinationHeader env) = Some [Destination (Request_Message q)])"
  by (auto simp add: EncodeRequest_def ClientEncodeRequestBody_def
        ClientEncodeRequestHeaders_def AddMessageHeaders_def Request_Destination_def
        Header_Set_same Header_Set_other
      split: sum.splits prod.splits option.splits)

theorem destination_header_always_set_witness:
  "fst (snd (EncodeRequest example_env Msgpack example_component (EntityV example_entity))) = None
   \<and> Header (snd (snd (EncodeRequest example_env Msgpack example_component (EntityV example_entity))))
        ''X-Destination'' = Some [''mac:112233445566'']
   \<and> DestinationHeader example_env \<noteq> ''Content-Type''
   \<and> fst (ClientEncodeRequestBody example_env Msgpack [(''X-Destination'', [''elsewhere''])]
             example_component (RequestV example_request)) = None
   \<and> Header (snd (ClientEncodeRequestBody example_env Msgpack [(''X-Destination'', [''elsewhere''])]
             example_component (RequestV example_request)))
        ''X-Destination'' = Some [''mac:112233445566'']
   \<and> fst (ClientEncodeRequestHeaders example_env [(''X-Destination'', [''elsewhere''])]
             example_component (RequestV example_request)) = None
   \<and> Header (snd (ClientEncodeRequestHeaders example_env [(''X-Destination'', [''elsewhere''])]
             example_component (RequestV example_request)))
        ''X-Destination'' = Some [''mac:112233445566'']"
proof -
  have ok1: "fst (snd (EncodeRequest example_env Msgpack example_component (EntityV example_entity))) = None"
    by (simp add: EncodeRequest_def example_entity_def)
  have ok2: "fst (ClientEncodeRequestBody example_env Msgpack [(''X-Destination'', [''elsewhere''])]
             example_component (RequestV example_request)) = None"
    by (simp add: ClientEncodeRequestBody_def example_request_def)
  have ok3: "fst (ClientEncodeRequestHeaders example_env [(''X-Destination'', [''elsewhere''])]
             example_component (RequestV example_request)) = None"
    by (simp add: ClientEncodeRequestHeaders_def example_env_def)
  have name: "DestinationHeader example_env = ''X-Destination''"
    by (simp add: example_env_def)
  have dest: "Destination (Entity_Message example_entity) = ''mac:112233445566''"
    "Destination (Request_Message example_request) = ''mac:112233445566''"
    by (simp_all add: example_entity_def example_request_def example_message_def)
  show ?thesis
    using ok1 ok2 ok3 name dest
      destination_header_always_set
        [where env = example_env and format = Msgpack and component = example_component
           and entity = example_entity and custom = "[(''X-Destination'', [''elsewhere''])]"
           and httpRequest = example_component and q = example_request]
    by (simp split: prod.splits)
qed

section \<open>Properties of the message handler\<close>

lemmas example_defs =
  example_decoders_def example_encoders_def example_device_env_def example_Router_def
  example_handler_def example_writer_def inbound_body_def example_routed_def

lemma written_call: "written w (call w cs) = cs"
  by (simp add: written_def call_def)

lemma written_same: "written w w = []"
  by (simp add: written_def)

lemma error_writes_simps:
  "error_writes [] = []"
  "error_writes (Formatf c f a # cs) = c # error_writes cs"
  "error_writes (HeaderSet k v # cs) = error_writes cs"
  "error_writes (Write b # cs) = error_writes cs"
  by (simp_all add: error_writes_def)

lemma ServeHTTP_decode_failed:
  "decodeRequest mh request = Inl e \<Longrightarrow>
   ServeHTTP env mh w request =
     \<lparr>response = call w [Formatf 400 ''Could not decode WRP message: %s'' (Some e)],
      logged = [], collab_calls = [], cancelled = snd (createContext mh)\<rparr>"
  by (cases "createContext mh"; simp add: ServeHTTP_def Let_def)

lemma ServeHTTP_encode_failed:
  "decodeRequest mh request = Inr (m, body) \<Longrightarrow> device_contents mh m body = (cs, Inl e) \<Longrightarrow>
   ServeHTTP env mh w request =
     \<lparr>response = call w [Formatf 500 ''Could not encode WRP message: %s'' (Some e)],
      logged = [], collab_calls = cs, cancelled = snd (createContext mh)\<rparr>"
  by (cases "DeviceEncoders mh"; cases "createContext mh"; simp add: ServeHTTP_def device_contents_def Let_def)

lemma ServeHTTP_request_failed:
  "decodeRequest mh request = Inr (m, body) \<Longrightarrow> device_contents mh m body = (cs, Inr contents) \<Longrightarrow>
   NewRequest env m contents (fst (createContext mh)) = Inl e \<Longrightarrow>
   ServeHTTP env mh w request =
     \<lparr>response = call w [Formatf 400 ''Could not create device request: %s'' (Some e)],
      logged = [],
      collab_calls = cs @ [NewRequest_call m contents (fst (createContext mh))],
      cancelled = snd (createContext mh)\<rparr>"
  by (cases "DeviceEncoders mh"; cases "createContext mh"; simp add: ServeHTTP_def device_contents_def Let_def)

lemma ServeHTTP_route_failed:
  "decodeRequest mh request = Inr (m, body) \<Longrightarrow> device_contents mh m body = (cs, Inr contents) \<Longrightarrow>
   NewRequest env m contents (fst (createContext mh)) = Inr dreq \<Longrightarrow>
   Router mh dreq = (dresp, Some e) \<Longrightarrow>
   ServeHTTP env mh w request =
     \<lparr>response = call w [Formatf (if e = ErrorDeviceNotFound then 404 else 500)
                           ''Could not process device request: %s'' (Some e)],
      logged = [],
      collab_calls = cs @ [NewRequest_call m contents (fst (createContext mh)), Route_call dreq],
      cancelled = snd (createContext mh)\<rparr>"
  by (cases "DeviceEncoders mh"; cases "createContext mh"; simp add: ServeHTTP_def device_contents_def Let_def)

lemma ServeHTTP_no_response:
  "decodeRequest mh request = Inr (m, body) \<Longrightarrow> device_contents mh m body = (cs, Inr contents) \<Longrightarrow>
   NewRequest env m contents (fst (createContext mh)) = Inr dreq \<Longrightarrow>
   Router mh dreq = (None, None) \<Longrightarrow>
   ServeHTTP env mh w request =
     \<lparr>response = w, logged = [],
      collab_calls = cs @ [NewRequest_call m contents (fst (createContext mh)), Route_call dreq],
      cancelled = snd (createContext mh)\<rparr>"
  by (cases "DeviceEncoders mh"; cases "createContext mh"; simp add: ServeHTTP_def device_contents_def Let_def)

lemma ServeHTTP_device_failed:
  "decodeRequest mh request = Inr (m, body) \<Longrightarrow> device_contents mh m body = (cs, Inr contents) \<Longrightarrow>
   NewRequest env m contents (fst (createContext mh)) = Inr dreq \<Longrightarrow>
   Router mh dreq = (Some dr, None) \<Longrightarrow> Response_Error dr = Some de \<Longrightarrow>
   ServeHTTP env mh w request =
     \<lparr>response = call w [Formatf 500 ''Device transaction failed: %s'' None],
      logged = [],
      collab_calls = cs @ [NewRequest_call m contents (fst (createContext mh)), Route_call dreq],
      cancelled = snd (createContext mh)\<rparr>"
  by (cases "DeviceEncoders mh"; cases "createContext mh"; simp add: ServeHTTP_def device_contents_def Let_def)

lemma ServeHTTP_success:
  "decodeRequest mh request = Inr (m, body) \<Longrightarrow> device_contents mh m body = (cs, Inr contents) \<Longrightarrow>
   NewRequest env m contents (fst (createContext mh)) = Inr dreq \<Longrightarrow>
   Router mh dreq = (Some dr, None) \<Longrightarrow> Response_Error dr = None \<Longrightarrow>
   written w (response (ServeHTTP env mh w request)) =
     (case ResponseEncoders mh of
        Some pool \<Rightarrow>
          [HeaderSet ''Content-Type'' (Format_ContentType env (EncoderPool_Format pool)),
           Write (fst (EncoderPool_Encode pool dr))]
      | None \<Rightarrow>
          [HeaderSet ''Content-Type'' (Format_ContentType env Msgpack),
           Write (Response_Contents dr)])
   \<and> collab_calls (ServeHTTP env mh w request) =
       cs @ [NewRequest_call m contents (fst (createContext mh)), Route_call dreq]"
  by (cases "DeviceEncoders mh"; cases "createContext mh"; cases "ResponseEncoders mh"; simp add: ServeHTTP_def device_contents_def written_call Let_def case_prod_beta)


lemma device_contents_calls:
  "device_contents mh m body = (cs, r) \<Longrightarrow>
   (DeviceEncoders mh = None \<and> cs = [] \<and> r = Inr body)
   \<or> (\<exists>pool. DeviceEncoders mh = Some pool \<and> cs = [EncodeBytes_call m] \<and> r = EncodeBytes pool m)"
  by (cases "DeviceEncoders mh") (auto simp add: device_contents_def)

lemma ServeHTTP_routed_calls:
  assumes "decodeRequest mh request = Inr (m, body)"
    and "device_contents mh m body = (cs, Inr contents)"
    and "NewRequest env m contents (fst (createContext mh)) = Inr dreq"
  shows "collab_calls (ServeHTTP env mh w request) =
           cs @ [NewRequest_call m contents (fst (createContext mh)), Route_call dreq]"
proof (cases "Router mh dreq")
  case (Pair dresp err)
  show ?thesis
  proof (cases err)
    case (Some e)
    with Pair assms show ?thesis by (simp add: ServeHTTP_route_failed)
  next
    case None
    note noerr = this
    show ?thesis
    proof (cases dresp)
      case None
      with Pair noerr assms show ?thesis by (simp add: ServeHTTP_no_response)
    next
      case (Some dr)
      show ?thesis
      proof (cases "Response_Error dr")
        case None
        with Pair noerr Some assms show ?thesis by (simp add: ServeHTTP_success)
      next
        case (Some de)
        with Pair noerr \<open>dresp = Some dr\<close> assms show ?thesis
          by (simp add: ServeHTTP_device_failed)
      qed
    qed
  qed
qed

lemma ServeHTTP_routed:
  assumes "Route_call dreq \<in> set (collab_calls (ServeHTTP env mh w request))"
  shows "\<exists>m body cs contents.
           decodeRequest mh request = Inr (m, body)
           \<and> device_contents mh m body = (cs, Inr contents)
           \<and> NewRequest env m contents (fst (createContext mh)) = Inr dreq"
proof (cases "decodeRequest mh request")
  case (Inl e)
  with assms show ?thesis by (simp add: ServeHTTP_decode_failed)
next
  case (Inr mb)
  obtain m body where mb: "mb = (m, body)" by (cases mb)
  obtain cs r where dc: "device_contents mh m body = (cs, r)" by (cases "device_contents mh m body")
  from device_contents_calls [OF dc] have cs: "Route_call dreq \<notin> set cs" by auto
  show ?thesis
  proof (cases r)
    case (Inl e)
    with assms Inr mb dc cs show ?thesis by (simp add: ServeHTTP_encode_failed)
  next
    case enc: (Inr contents)
    show ?thesis
    proof (cases "NewRequest env m contents (fst (createContext mh))")
      case (Inl e)
      with assms Inr mb dc cs enc show ?thesis by (simp add: ServeHTTP_request_failed)
    next
      case new: (Inr dreq')
      from Inr mb dc enc new have
        "collab_calls (ServeHTTP env mh w request) =
           cs @ [NewRequest_call m contents (fst (createContext mh)), Route_call dreq']"
        by (simp add: ServeHTTP_routed_calls)
      with assms cs have "dreq' = dreq" by simp
      with Inr mb dc enc new show ?thesis by simp
    qed
  qed
qed

lemma ServeHTTP_written_forms:
  "(\<exists>c f a. written w (response (ServeHTTP env mh w request)) = [Formatf c f a])
   \<or> (\<exists>k v b. written w (response (ServeHTTP env mh w request)) = [HeaderSet k v, Write b])
   \<or> written w (response (ServeHTTP env mh w request)) = []"
proof (cases "decodeRequest mh request")
  case (Inl e)
  then show ?thesis by (simp add: ServeHTTP_decode_failed written_call)
next
  case (Inr mb)
  obtain m body where mb: "mb = (m, body)" by (cases mb)
  obtain cs r where dc: "device_contents mh m body = (cs, r)" by (cases "device_contents mh m body")
  show ?thesis
  proof (cases r)
    case (Inl e)
    with Inr mb dc show ?thesis by (simp add: ServeHTTP_encode_failed written_call)
  next
    case enc: (Inr contents)
    show ?thesis
    proof (cases "NewRequest env m contents (fst (createContext mh))")
      case (Inl e)
      with Inr mb dc enc show ?thesis by (simp add: ServeHTTP_request_failed written_call)
    next
      case new: (Inr dreq)
      obtain dresp err where rt: "Router mh dreq = (dresp, err)" by (cases "Router mh dreq")
      show ?thesis
      proof (cases err)
        case (Some e)
        with Inr mb dc enc new rt show ?thesis
          by (simp add: ServeHTTP_route_failed written_call)
      next
        case None
        note noerr = this
        show ?thesis
        proof (cases dresp)
          case None
          with Inr mb dc enc new rt noerr show ?thesis
            by (simp add: ServeHTTP_no_response written_same)
        next
          case (Some dr)
          show ?thesis
          proof (cases "Response_Error dr")
            case None
            with Inr mb dc enc new rt noerr Some show ?thesis
              by (cases "ResponseEncoders mh") (simp_all add: ServeHTTP_success)
          next
            case (Some de)
            with Inr mb dc enc new rt noerr \<open>dresp = Some dr\<close> show ?thesis
              by (simp add: ServeHTTP_device_failed written_call)
          qed
        qed
      qed
    qed
  qed
qed

lemma ServeHTTP_at_most_one:
  "length (error_writes (written w (response (ServeHTTP env mh w request)))) \<le> 1"
  using ServeHTTP_written_forms [of w env mh request]
  by (auto simp add: error_writes_simps)

lemma example_decode_fails:
  "decodeRequest example_handler (inbound_body ''  '') = Inl (ErrorString ''unexpected EOF'')"
  by (simp add: decodeRequest_def example_defs)

lemma example_routes:
  assumes "d = c # cs" and "c \<noteq> CHR '' ''"
  shows "Route_call (example_routed d)
           \<in> set (collab_calls (ServeHTTP example_device_env example_handler w (inbound_body d)))"
proof -
  let ?m = "\<lparr>Type = 3, Destination = d, Payload = []\<rparr>"
  have "decodeRequest example_handler (inbound_body d) = Inr (?m, d)"
    using assms by (simp add: decodeRequest_def example_defs)
  moreover have "device_contents example_handler ?m d = ([EncodeBytes_call ?m], Inr d)"
    by (simp add: device_contents_def example_defs)
  moreover have "NewRequest example_device_env ?m d (fst (createContext example_handler))
                   = Inr (example_routed d)"
    by (simp add: createContext_def example_defs)
  ultimately show ?thesis
    by (simp add: ServeHTTP_routed_calls)
qed


text \<open>
  C2. The status \<open>ServeHTTP\<close> writes follows the outcome. When reading or decoding the
  request body fails, the one error write has status 400. When \<open>Router.Route\<close> was called
  and returned the error \<open>ErrorDeviceNotFound\<close> it is 404, and for any other non-nil error
  500. When \<open>Route\<close> returned no error and a non-nil response whose \<open>Error\<close> is non-nil
  it is 500. Whatever the request, at most one error write is made.
\<close>

theorem ServeHTTP_status_by_outcome:
  "(\<forall>e. decodeRequest mh request = Inl e \<longrightarrow>
      error_writes (written w (response (ServeHTTP env mh w request))) = [400])
   \<and> (\<forall>dreq dresp.
        Route_call dreq \<in> set (collab_calls (ServeHTTP env mh w request))
        \<and> Router mh dreq = (dresp, Some ErrorDeviceNotFound) \<longrightarrow>
        error_writes (written w (response (ServeHTTP env mh w request))) = [404])
   \<and> (\<forall>dreq dresp e.
        Route_call dreq \<in> set (collab_calls (ServeHTTP env mh w request))
        \<and> Router mh dreq = (dresp, Some e) \<and> e \<noteq> ErrorDeviceNotFound \<longrightarrow>
        error_writes (written w (response (ServeHTTP env mh w request))) = [500])
   \<and> (\<forall>dreq dr de.
        Route_call dreq \<in> set (collab_calls (ServeHTTP env mh w request))
        \<and> Router mh dreq = (Some dr, None) \<and> Response_Error dr = Some de \<longrightarrow>
        error_writes (written w (response (ServeHTTP env mh w request))) = [500])
   \<and> length (error_writes (written w (response (ServeHTTP env mh w request)))) \<le> 1"
proof (intro conjI allI impI)
  fix e assume "decodeRequest mh request = Inl e"
  then show "error_writes (written w (response (ServeHTTP env mh w request))) = [400]"
    by (simp add: ServeHTTP_decode_failed written_call error_writes_simps)
next
  fix dreq dresp
  assume a: "Route_call dreq \<in> set (collab_calls (ServeHTTP env mh w request))
             \<and> Router mh dreq = (dresp, Some ErrorDeviceNotFound)"
  with ServeHTTP_routed [of dreq env mh w request]
  show "error_writes (written w (response (ServeHTTP env mh w request))) = [404]"
    by (auto simp add: ServeHTTP_route_failed written_call error_writes_simps)
next
  fix dreq dresp e
  assume a: "Route_call dreq \<in> set (collab_calls (ServeHTTP env mh w request))
             \<and> Router mh dreq = (dresp, Some e) \<and> e \<noteq> ErrorDeviceNotFound"
  with ServeHTTP_routed [of dreq env mh w request]
  show "error_writes (written w (response (ServeHTTP env mh w request))) = [500]"
    by (auto simp add: ServeHTTP_route_failed written_call error_writes_simps)
next
  fix dreq dr de
  assume a: "Route_call dreq \<in> set (collab_calls (ServeHTTP env mh w request))
             \<and> Router mh dreq = (Some dr, None) \<and> Response_Error dr = Some de"
  with ServeHTTP_routed [of dreq env mh w request]
  show "error_writes (written w (response (ServeHTTP env mh w request))) = [500]"
    by (auto simp add: ServeHTTP_device_failed written_call error_writes_simps)
next
  show "length (error_writes (written w (response (ServeHTTP env mh w request)))) \<le> 1"
    by (rule ServeHTTP_at_most_one)
qed

theorem ServeHTTP_status_by_outcome_witness:
  "decodeRequest example_handler (inbound_body ''  '') = Inl (ErrorString ''unexpected EOF'')
   \<and> error_writes (written example_writer (response
         (ServeHTTP example_device_env example_handler example_writer (inbound_body ''  '')))) = [400]
   \<and> Router example_handler (example_routed ''missing'') = (None, Some ErrorDeviceNotFound)
   \<and> error_writes (written example_writer (response
         (ServeHTTP example_device_env example_handler example_writer (inbound_body ''missing'')))) = [404]
   \<and> Router example_handler (example_routed ''broken'') = (None, Some (ErrorString ''connection closed''))
   \<and> error_writes (written example_writer (response
         (ServeHTTP example_device_env example_handler example_writer (inbound_body ''broken'')))) = [500]
   \<and> Router example_handler (example_routed ''failing'')
        = (Some \<lparr>Response_Error = Some (ErrorString ''boom''), Response_Contents = []\<rparr>, None)
   \<and> error_writes (written example_writer (response
         (ServeHTTP example_device_env example_handler example_writer (inbound_body ''failing'')))) = [500]"
proof -
  have r1: "Router example_handler (example_routed ''missing'') = (None, Some ErrorDeviceNotFound)"
    by (simp add: example_defs)
  have r2: "Router example_handler (example_routed ''broken'')
              = (None, Some (ErrorString ''connection closed''))"
    by (simp add: example_defs)
  have r3: "Router example_handler (example_routed ''failing'')
              = (Some \<lparr>Response_Error = Some (ErrorString ''boom''), Response_Contents = []\<rparr>, None)"
    by (simp add: example_defs)
  have c1: "Route_call (example_routed ''missing'') \<in> set (collab_calls
              (ServeHTTP example_device_env example_handler example_writer (inbound_body ''missing'')))"
    by (rule example_routes [OF refl]) simp
  have c2: "Route_call (example_routed ''broken'') \<in> set (collab_calls
              (ServeHTTP example_device_env example_handler example_writer (inbound_body ''broken'')))"
    by (rule example_routes [OF refl]) simp
  have c3: "Route_call (example_routed ''failing'') \<in> set (collab_calls
              (ServeHTTP example_device_env example_handler example_writer (inbound_body ''failing'')))"
    by (rule example_routes [OF refl]) simp
  have t0: "error_writes (written example_writer (response
         (ServeHTTP example_device_env example_handler example_writer (inbound_body ''  '')))) = [400]"
    using ServeHTTP_status_by_outcome
      [where mh = example_handler and request = "inbound_body ''  ''"
         and w = example_writer and env = example_device_env,
       THEN conjunct1, rule_format, OF example_decode_fails] .
  have t1: "error_writes (written example_writer (response
         (ServeHTTP example_device_env example_handler example_writer (inbound_body ''missing'')))) = [404]"
    using ServeHTTP_status_by_outcome
      [where mh = example_handler and request = "inbound_body ''missing''"
         and w = example_writer and env = example_device_env,
       THEN conjunct2, THEN conjunct1, rule_format, OF conjI [OF c1 r1]] .
  have t2: "error_writes (written example_writer (response
         (ServeHTTP example_device_env example_handler example_writer (inbound_body ''broken'')))) = [500]"
    using ServeHTTP_status_by_outcome
      [where mh = example_handler and request = "inbound_body ''broken''"
         and w = example_writer and env = example_device_env,
       THEN conjunct2, THEN conjunct2, THEN conjunct1, rule_format,
       of "example_routed ''broken''" None "ErrorString ''connection closed''"]
      c2 r2 by simp
  have t3: "error_writes (written example_writer (response
         (ServeHTTP example_device_env example_handler example_writer (inbound_body ''failing'')))) = [500]"
    using ServeHTTP_status_by_outcome
      [where mh = example_handler and request = "inbound_body ''failing''"
         and w = example_writer and env = example_device_env,
       THEN conjunct2, THEN conjunct2, THEN conjunct2, THEN conjunct1, rule_format,
       of "example_routed ''failing''"
          "\<lparr>Response_Error = Some (ErrorString ''boom''), Response_Contents = []\<rparr>"
          "ErrorString ''boom''"]
      c3 r3 by simp
  from example_decode_fails r1 r2 r3 t0 t1 t2 t3 show ?thesis by simp
qed


text \<open>
  C8. When \<open>Router.Route\<close> returns a nil response and a nil error, \<open>ServeHTTP\<close> makes no
  call on the response writer: no status, no header, no body.
\<close>

theorem ServeHTTP_nil_response_writes_nothing:
  "Route_call dreq \<in> set (collab_calls (ServeHTTP env mh w request))
   \<and> Router mh dreq = (None, None) \<longrightarrow>
   response (ServeHTTP env mh w request) = w"
  using ServeHTTP_routed [of dreq env mh w request]
  by (auto simp add: ServeHTTP_no_response)



theorem ServeHTTP_nil_response_writes_nothing_witness:
  "Route_call (example_routed ''silent'') \<in> set (collab_calls
     (ServeHTTP example_device_env example_handler example_writer (inbound_body ''silent'')))
   \<and> Router example_handler (example_routed ''silent'') = (None, None)
   \<and> response (ServeHTTP example_device_env example_handler example_writer
         (inbound_body ''silent'')) = example_writer"
proof -
  have c: "Route_call (example_routed ''silent'') \<in> set (collab_calls
     (ServeHTTP example_device_env example_handler example_writer (inbound_body ''silent'')))"
    by (rule example_routes [OF refl]) simp
  have r: "Router example_handler (example_routed ''silent'') = (None, None)"
    by (simp add: example_defs)
  from c r ServeHTTP_nil_response_writes_nothing
      [where dreq = "example_routed ''silent''" and env = example_device_env
         and mh = example_handler and w = example_writer
         and request = "inbound_body ''silent''", THEN mp, OF conjI [OF c r]]
  show ?thesis by simp
qed

lemma ServeHTTP_requested:
  assumes "decodeRequest mh request = Inr (m, body)"
    and "device_contents mh m body = (cs, Inr contents)"
  shows "take (Suc (length cs)) (collab_calls (ServeHTTP env mh w request)) =
           cs @ [NewRequest_call m contents (fst (createContext mh))]"
proof (cases "NewRequest env m contents (fst (createContext mh))")
  case (Inl e)
  with assms show ?thesis by (simp add: ServeHTTP_request_failed)
next
  case (Inr dreq)
  with assms show ?thesis by (simp add: ServeHTTP_routed_calls)
qed

text \<open>
  C3, as the claim states it, fails. For a routed response that carries the error \<open>boom\<close>
  the handler makes one call on the response writer and no other: no header is set and
  \<open>HeadersForSpans\<close> is not called, and the error handed to \<open>httperror.Formatf\<close> is the
  nil error of \<open>Route\<close>, not the error of the response.
\<close>

theorem device_failure_counterexample:
  "Router example_handler (example_routed ''failing'')
     = (Some \<lparr>Response_Error = Some (ErrorString ''boom''), Response_Contents = []\<rparr>, None)
   \<and> written example_writer (response
         (ServeHTTP example_device_env example_handler example_writer (inbound_body ''failing'')))
       = [Formatf 500 ''Device transaction failed: %s'' None]"
  by (simp add: ServeHTTP_def decodeRequest_def createContext_def Let_def example_defs
        written_def call_def)

text \<open>
  C3, amended. When \<open>Route\<close> returns no error and a response whose \<open>Error\<close> is non-nil,
  \<open>ServeHTTP\<close> makes exactly one call on the response writer: an error write with status
  500 and the message format \<open>Device transaction failed: %s\<close>; it sets no header and
  writes no contents. Headers for trace spans are added by the response encoder of
  \<open>wrphttp\<close>: \<open>ServerEncodeResponseBody\<close> first calls \<open>HeadersForSpans\<close> on the spans of
  the response, whether or not the encoding then succeeds.
\<close>

theorem device_failure_surfaced:
  "(\<forall>dreq dr de.
      Route_call dreq \<in> set (collab_calls (ServeHTTP env mh w request))
      \<and> Router mh dreq = (Some dr, None) \<and> Response_Error dr = Some de \<longrightarrow>
      (\<exists>a. written w (response (ServeHTTP env mh w request))
             = [Formatf 500 ''Device transaction failed: %s'' a]))
   \<and> (\<exists>rest. written hw (snd (ServerEncodeResponseBody wenv timeLayout format hw (ResponseV r)))
                = HeadersForSpans (Response_Spans r) timeLayout # rest)"
proof (intro conjI allI impI)
  fix dreq dr de
  assume "Route_call dreq \<in> set (collab_calls (ServeHTTP env mh w request))
          \<and> Router mh dreq = (Some dr, None) \<and> Response_Error dr = Some de"
  with ServeHTTP_routed [of dreq env mh w request]
  show "\<exists>a. written w (response (ServeHTTP env mh w request))
             = [Formatf 500 ''Device transaction failed: %s'' a]"
    by (auto simp add: ServeHTTP_device_failed written_call)
next
  show "\<exists>rest. written hw (snd (ServerEncodeResponseBody wenv timeLayout format hw (ResponseV r)))
                = HeadersForSpans (Response_Spans r) timeLayout # rest"
    by (cases "Response_Encode r format")
       (simp_all add: ServerEncodeResponseBody_def Let_def written_def call_def)
qed

theorem device_failure_surfaced_witness:
  "Route_call (example_routed ''failing'') \<in> set (collab_calls
     (ServeHTTP example_device_env example_handler example_writer (inbound_body ''failing'')))
   \<and> Router example_handler (example_routed ''failing'')
        = (Some \<lparr>Response_Error = Some (ErrorString ''boom''), Response_Contents = []\<rparr>, None)
   \<and> (\<exists>a. written example_writer (response
         (ServeHTTP example_device_env example_handler example_writer (inbound_body ''failing'')))
        = [Formatf 500 ''Device transaction failed: %s'' a])
   \<and> (\<exists>rest. written example_writer
         (snd (ServerEncodeResponseBody example_env ''RFC3339'' Msgpack example_writer
                 (ResponseV example_response)))
        = HeadersForSpans [(), ()] ''RFC3339'' # rest)"
proof -
  have c: "Route_call (example_routed ''failing'') \<in> set (collab_calls
     (ServeHTTP example_device_env example_handler example_writer (inbound_body ''failing'')))"
    by (rule example_routes [OF refl]) simp
  have r: "Router example_handler (example_routed ''failing'')
        = (Some \<lparr>Response_Error = Some (ErrorString ''boom''), Response_Contents = []\<rparr>, None)"
    by (simp add: example_defs)
  have s: "Response_Spans example_response = [(), ()]"
    by (simp add: example_response_def)
  note t = device_failure_surfaced
      [where env = example_device_env and mh = example_handler and w = example_writer
         and request = "inbound_body ''failing''" and hw = example_writer
         and wenv = example_env and timeLayout = "''RFC3339''" and format = Msgpack
         and r = example_response]
  from t [THEN conjunct1, rule_format, of "example_routed ''failing''"
            "\<lparr>Response_Error = Some (ErrorString ''boom''), Response_Contents = []\<rparr>"
            "ErrorString ''boom''"] c r
  have "\<exists>a. written example_writer (response
         (ServeHTTP example_device_env example_handler example_writer (inbound_body ''failing'')))
        = [Formatf 500 ''Device transaction failed: %s'' a]"
    by simp
  with c r t [THEN conjunct2] s show ?thesis by simp
qed

text \<open>
  C4, as the claim states it, fails. The request decoders and the device encoders have
  the same format, yet the device encoder is called, and the bytes handed to
  \<open>NewRequest\<close> are its output, not the bytes of the request body.
\<close>

theorem reencode_same_format_counterexample:
  "DecoderPool_Format (RequestDecoders example_handler) = Msgpack
   \<and> map_option EncoderPool_Format (DeviceEncoders example_handler) = Some Msgpack
   \<and> ReadAll_body (inbound_body ''  dev1'') = ''  dev1''
   \<and> collab_calls (ServeHTTP example_device_env example_handler example_writer
        (inbound_body ''  dev1''))
       = [EncodeBytes_call \<lparr>Type = 3, Destination = ''dev1'', Payload = []\<rparr>,
          NewRequest_call \<lparr>Type = 3, Destination = ''dev1'', Payload = []\<rparr> ''dev1'' RequestContext,
          Route_call (example_routed ''dev1'')]"
  by (simp add: ServeHTTP_def decodeRequest_def createContext_def Let_def example_defs)

text \<open>
  C4, amended. After a successful decode, when a device encoder pool is configured the
  message is always encoded with it, whatever the inbound format: the bytes it leaves are
  the ones handed to \<open>NewRequest\<close>, and when it fails a 500 is written and no request is
  made. When no device encoder pool is configured the bytes of the request body are
  handed to \<open>NewRequest\<close> as they are.
\<close>

theorem device_contents_forwarded:
  "(\<forall>m body pool.
      decodeRequest mh request = Inr (m, body) \<and> DeviceEncoders mh = Some pool \<longrightarrow>
      (case EncodeBytes pool m of
         Inl e \<Rightarrow>
           collab_calls (ServeHTTP env mh w request) = [EncodeBytes_call m]
           \<and> written w (response (ServeHTTP env mh w request))
               = [Formatf 500 ''Could not encode WRP message: %s'' (Some e)]
       | Inr contents \<Rightarrow>
           take 2 (collab_calls (ServeHTTP env mh w request))
             = [EncodeBytes_call m, NewRequest_call m contents (fst (createContext mh))]))
   \<and> (\<forall>m body.
        decodeRequest mh request = Inr (m, body) \<and> DeviceEncoders mh = None \<longrightarrow>
        take 1 (collab_calls (ServeHTTP env mh w request))
          = [NewRequest_call m body (fst (createContext mh))])"
proof (intro conjI allI impI)
  fix m body pool
  assume a: "decodeRequest mh request = Inr (m, body) \<and> DeviceEncoders mh = Some pool"
  then have dc: "device_contents mh m body = ([EncodeBytes_call m], EncodeBytes pool m)"
    by (simp add: device_contents_def)
  show "case EncodeBytes pool m of
         Inl e \<Rightarrow>
           collab_calls (ServeHTTP env mh w request) = [EncodeBytes_call m]
           \<and> written w (response (ServeHTTP env mh w request))
               = [Formatf 500 ''Could not encode WRP message: %s'' (Some e)]
       | Inr contents \<Rightarrow>
           take 2 (collab_calls (ServeHTTP env mh w request))
             = [EncodeBytes_call m, NewRequest_call m contents (fst (createContext mh))]"
  proof (cases "EncodeBytes pool m")
    case (Inl e)
    with a dc show ?thesis by (simp add: ServeHTTP_encode_failed written_call)
  next
    case (Inr contents)
    with a dc ServeHTTP_requested [of mh request m body "[EncodeBytes_call m]" contents env w]
    show ?thesis by (simp add: numeral_2_eq_2)
  qed
next
  fix m body
  assume a: "decodeRequest mh request = Inr (m, body) \<and> DeviceEncoders mh = None"
  then have dc: "device_contents mh m body = ([], Inr body)"
    by (simp add: device_contents_def)
  with a ServeHTTP_requested [of mh request m body "[]" body env w]
  show "take 1 (collab_calls (ServeHTTP env mh w request))
          = [NewRequest_call m body (fst (createContext mh))]"
    by simp
qed

theorem device_contents_forwarded_witness:
  "decodeRequest example_handler (inbound_body ''  dev1'')
     = Inr (\<lparr>Type = 3, Destination = ''dev1'', Payload = []\<rparr>, ''  dev1'')
   \<and> DeviceEncoders example_handler = Some example_encoders
   \<and> take 2 (collab_calls (ServeHTTP example_device_env example_handler example_writer
        (inbound_body ''  dev1'')))
       = [EncodeBytes_call \<lparr>Type = 3, Destination = ''dev1'', Payload = []\<rparr>,
          NewRequest_call \<lparr>Type = 3, Destination = ''dev1'', Payload = []\<rparr> ''dev1'' RequestContext]
   \<and> decodeRequest (example_handler\<lparr>DeviceEncoders := None\<rparr>) (inbound_body ''  dev1'')
     = Inr (\<lparr>Type = 3, Destination = ''dev1'', Payload = []\<rparr>, ''  dev1'')
   \<and> DeviceEncoders (example_handler\<lparr>DeviceEncoders := None\<rparr>) = None
   \<and> take 1 (collab_calls (ServeHTTP example_device_env (example_handler\<lparr>DeviceEncoders := None\<rparr>)
        example_writer (inbound_body ''  dev1'')))
       = [NewRequest_call \<lparr>Type = 3, Destination = ''dev1'', Payload = []\<rparr> ''  dev1'' RequestContext]"
proof -
  let ?m = "\<lparr>Type = 3, Destination = ''dev1'', Payload = []\<rparr>"
  have d1: "decodeRequest example_handler (inbound_body ''  dev1'') = Inr (?m, ''  dev1'')"
    by (simp add: decodeRequest_def example_defs)
  have p1: "DeviceEncoders example_handler = Some example_encoders"
    by (simp add: example_defs)
  have e1: "EncodeBytes example_encoders ?m = Inr ''dev1''"
    by (simp add: example_defs)
  have d2: "decodeRequest (example_handler\<lparr>DeviceEncoders := None\<rparr>) (inbound_body ''  dev1'')
              = Inr (?m, ''  dev1'')"
    by (simp add: decodeRequest_def example_defs)
  have p2: "DeviceEncoders (example_handler\<lparr>DeviceEncoders := None\<rparr>) = None"
    by simp
  have c1: "fst (createContext example_handler) = RequestContext"
    "fst (createContext (example_handler\<lparr>DeviceEncoders := None\<rparr>)) = RequestContext"
    by (simp_all add: createContext_def example_defs)
  from device_contents_forwarded
      [where mh = example_handler and request = "inbound_body ''  dev1''"
         and env = example_device_env and w = example_writer,
       THEN conjunct1, rule_format, OF conjI [OF d1 p1]] e1 c1
  have t1: "take 2 (collab_calls (ServeHTTP example_device_env example_handler example_writer
        (inbound_body ''  dev1'')))
       = [EncodeBytes_call ?m, NewRequest_call ?m ''dev1'' RequestContext]"
    by simp
  from device_contents_forwarded
      [where mh = "example_handler\<lparr>DeviceEncoders := None\<rparr>"
         and request = "inbound_body ''  dev1''"
         and env = example_device_env and w = example_writer,
       THEN conjunct2, rule_format, OF conjI [OF d2 p2]] c1
  have t2: "take 1 (collab_calls (ServeHTTP example_device_env
        (example_handler\<lparr>DeviceEncoders := None\<rparr>) example_writer (inbound_body ''  dev1'')))
       = [NewRequest_call ?m ''  dev1'' RequestContext]"
    by simp
  from d1 p1 t1 d2 p2 t2 show ?thesis by simp
qed


section \<open>Properties of the device list handler\<close>

lemma main_step_weight: "main_step s = Some s' \<Longrightarrow> weight s' < weight s"
  by (auto simp add: main_step_def weight_def split: main_pc.splits list.splits if_splits consumer_pc.splits)

lemma loop_body_fields:
  "unvisited (loop_body env s d) = unvisited s"
  "devices (loop_body env s d) = devices s"
  "main_at (loop_body env s d) = main_at s"
  "closed (loop_body env s d) = closed s"
  "finish (loop_body env s d) = finish s"
  "needsDelimiter (loop_body env s d) = True"
  "consumer_at (loop_body env s d) = consumer_at s"
  by (simp_all add: loop_body_def Let_def split: sum.splits)

lemma consumer_step_weight: "consumer_step env s = Some s' \<Longrightarrow> weight s' < weight s"
  by (auto simp add: consumer_step_def weight_def loop_body_fields
      split: consumer_pc.splits list.splits if_splits main_pc.splits)

lemma step_weight: "step env s s' \<Longrightarrow> weight s' < weight s"
  by (auto simp add: step_def main_step_weight consumer_step_weight)

lemma wf_step: "wf {(s', s). step env s s'}"
  by (rule wf_subset [OF wf_measure [of weight]]) (auto simp add: step_weight)


lemma loop_body_response:
  "rw_calls (listing_response (loop_body env s d)) =
     rw_calls (listing_response s)
     @ (if needsDelimiter s then [Write '',''] else []) @ [Write (entry env d), Flush]"
  by (cases "json_Marshal env d") (simp_all add: loop_body_def Let_def call_def entry_def)

lemma inv_start:
  "rw_Flusher w \<Longrightarrow> rw_Write_err w open_token = None \<Longrightarrow>
   listing_inv env w ds (NewDeviceListHandler w ds)"
  by (simp add: NewDeviceListHandler_def listing_inv_def to_come_def pending_def call_def)

lemma inv_send:
  assumes inv: "listing_inv env w ds s"
    and at: "main_at s = Visiting" "unvisited s = d # rest" "length (devices s) < 100"
  shows "listing_inv env w ds (s\<lparr>devices := devices s @ [d], unvisited := rest\<rparr>)"
proof -
  have p: "pending (s\<lparr>devices := devices s @ [d], unvisited := rest\<rparr>) = pending s"
    using at by (simp add: pending_def)
  from inv at show ?thesis
    unfolding listing_inv_def to_come_def p by auto
qed

lemma inv_close:
  assumes inv: "listing_inv env w ds s"
    and at: "main_at s = Visiting" "unvisited s = []"
  shows "listing_inv env w ds (s\<lparr>closed := True, main_at := Waiting\<rparr>)"
proof -
  have p: "pending (s\<lparr>closed := True, main_at := Waiting\<rparr>) = pending s"
    by (simp add: pending_def)
  from inv at show ?thesis
    unfolding listing_inv_def to_come_def p by auto
qed

lemma inv_finish:
  assumes inv: "listing_inv env w ds s"
    and at: "main_at s = Waiting" "finish s = 0"
  shows "listing_inv env w ds
           (s\<lparr>listing_response := call (listing_response s) [Write close_token, Flush],
              main_at := Finished\<rparr>)"
proof -
  from inv at have ex: "consumer_at s = Exited" "devices s = []" "unvisited s = []"
    unfolding listing_inv_def by auto
  then have p: "pending s = []"
    "pending (s\<lparr>listing_response := call (listing_response s) [Write close_token, Flush],
              main_at := Finished\<rparr>) = []"
    by (simp_all add: pending_def)
  from inv at ex show ?thesis
    unfolding listing_inv_def to_come_def p by (simp add: call_def)
qed

lemma inv_main_step:
  assumes "listing_inv env w ds s" and "main_step s = Some s'"
  shows "listing_inv env w ds s'"
proof (cases "main_at s")
  case Visiting
  show ?thesis
  proof (cases "unvisited s")
    case Nil
    with Visiting assms(2) have "s' = s\<lparr>closed := True, main_at := Waiting\<rparr>"
      by (simp add: main_step_def)
    with inv_close [OF assms(1) Visiting Nil] show ?thesis by simp
  next
    case (Cons d rest)
    with Visiting assms(2) have "length (devices s) < 100"
      and "s' = s\<lparr>devices := devices s @ [d], unvisited := rest\<rparr>"
      by (simp_all add: main_step_def split: if_splits)
    with inv_send [OF assms(1) Visiting Cons] show ?thesis by simp
  qed
next
  case Waiting
  with assms(2) have "finish s = 0"
    and "s' = s\<lparr>listing_response := call (listing_response s) [Write close_token, Flush],
                 main_at := Finished\<rparr>"
    by (simp_all add: main_step_def split: if_splits)
  with inv_finish [OF assms(1) Waiting] show ?thesis by simp
qed (use assms in \<open>simp_all add: main_step_def\<close>)

lemma inv_receive:
  assumes inv: "listing_inv env w ds s"
    and at: "consumer_at s = Ranging" "devices s = d # rest"
  shows "listing_inv env w ds (s\<lparr>devices := rest, consumer_at := Holding d\<rparr>)"
proof -
  have p: "pending (s\<lparr>devices := rest, consumer_at := Holding d\<rparr>) = pending s"
    using at by (simp add: pending_def)
  from inv at show ?thesis
    unfolding listing_inv_def to_come_def p by auto
qed

lemma inv_exit:
  assumes inv: "listing_inv env w ds s"
    and at: "consumer_at s = Ranging" "devices s = []" "closed s"
  shows "listing_inv env w ds (s\<lparr>finish := finish s - 1, consumer_at := Exited\<rparr>)"
proof -
  have p: "pending (s\<lparr>finish := finish s - 1, consumer_at := Exited\<rparr>) = pending s"
    using at by (simp add: pending_def)
  from inv at show ?thesis
    unfolding listing_inv_def to_come_def p by auto
qed

lemma inv_body:
  assumes inv: "listing_inv env w ds s"
    and at: "consumer_at s = Holding d"
  shows "listing_inv env w ds ((loop_body env s d)\<lparr>consumer_at := Ranging\<rparr>)"
proof -
  let ?s' = "(loop_body env s d)\<lparr>consumer_at := Ranging\<rparr>"
  from inv at have nf: "main_at s \<noteq> Finished"
    unfolding listing_inv_def by auto
  have p: "pending s = d # pending ?s'"
    using at by (simp add: pending_def loop_body_fields)
  have r: "rw_calls (listing_response ?s') @ entries_calls env True (pending ?s')
           = rw_calls (listing_response s) @ entries_calls env (needsDelimiter s) (pending s)"
    unfolding p by (simp add: loop_body_response)
  from inv have out: "rw_calls (listing_response s) @ to_come env s =
          rw_calls w @ [HeaderSet ''Content-Type'' ''application/json'', Write open_token]
          @ entries_calls env False ds @ [Write close_token, Flush]"
    unfolding listing_inv_def by blast
  have tc: "to_come env s = entries_calls env (needsDelimiter s) (pending s) @ [Write close_token, Flush]"
    "to_come env ?s' = entries_calls env True (pending ?s') @ [Write close_token, Flush]"
    using nf by (simp_all add: to_come_def loop_body_fields)
  have "rw_calls (listing_response ?s') @ to_come env ?s'
          = (rw_calls (listing_response ?s') @ entries_calls env True (pending ?s'))
            @ [Write close_token, Flush]"
    unfolding tc by simp
  also have "\<dots> = rw_calls (listing_response s) @ to_come env s"
    unfolding r tc by simp
  finally have out': "rw_calls (listing_response ?s') @ to_come env ?s' =
          rw_calls w @ [HeaderSet ''Content-Type'' ''application/json'', Write open_token]
          @ entries_calls env False ds @ [Write close_token, Flush]"
    using out by simp
  from inv at have ctl: "(main_at s = Visiting \<or> main_at s = Waiting \<or> main_at s = Finished)"
    "main_at s = Visiting \<longrightarrow> \<not> closed s"
    "main_at s \<noteq> Visiting \<longrightarrow> closed s \<and> unvisited s = []"
    "finish s = 1" "length (devices s) \<le> 100"
    unfolding listing_inv_def by auto
  have f: "main_at ?s' = main_at s" "consumer_at ?s' = Ranging" "closed ?s' = closed s"
    "unvisited ?s' = unvisited s" "devices ?s' = devices s" "finish ?s' = finish s"
    by (simp_all add: loop_body_fields)
  show ?thesis
    unfolding listing_inv_def f
    using ctl nf out' by simp
qed

lemma inv_consumer_step:
  assumes "listing_inv env w ds s" and "consumer_step env s = Some s'"
  shows "listing_inv env w ds s'"
proof (cases "consumer_at s")
  case Ranging
  show ?thesis
  proof (cases "devices s")
    case Nil
    with Ranging assms(2) have "closed s"
      and "s' = s\<lparr>finish := finish s - 1, consumer_at := Exited\<rparr>"
      by (simp_all add: consumer_step_def split: if_splits)
    with inv_exit [OF assms(1) Ranging Nil] show ?thesis by simp
  next
    case (Cons d rest)
    with Ranging assms(2) have "s' = s\<lparr>devices := rest, consumer_at := Holding d\<rparr>"
      by (simp add: consumer_step_def)
    with inv_receive [OF assms(1) Ranging Cons] show ?thesis by simp
  qed
next
  case (Holding d)
  with assms(2) have "s' = (loop_body env s d)\<lparr>consumer_at := Ranging\<rparr>"
    by (simp add: consumer_step_def)
  with inv_body [OF assms(1) Holding] show ?thesis by simp
next
  case NotStarted
  with assms(2) show ?thesis by (simp add: consumer_step_def)
next
  case Exited
  with assms(2) show ?thesis by (simp add: consumer_step_def)
qed

lemma inv_step:
  assumes "listing_inv env w ds s" and "step env s s'"
  shows "listing_inv env w ds s'"
proof -
  from assms(2) have "main_step s = Some s' \<or> consumer_step env s = Some s'"
    by (simp add: step_def)
  then show ?thesis
  proof
    assume "main_step s = Some s'"
    with assms(1) show ?thesis by (rule inv_main_step)
  next
    assume "consumer_step env s = Some s'"
    with assms(1) show ?thesis by (rule inv_consumer_step)
  qed
qed

lemma inv_reachable:
  assumes "(step env)\<^sup>*\<^sup>* s s'" and "listing_inv env w ds s"
  shows "listing_inv env w ds s'"
  using assms
proof (induction rule: rtranclp_induct)
  case base
  then show ?case .
next
  case (step y z)
  from step.IH [OF step.prems] step.hyps(2) show ?case by (rule inv_step)
qed


lemma consumer_blocked:
  assumes "consumer_step env s = None" and "consumer_at s \<noteq> NotStarted"
  shows "consumer_at s = Exited \<or> (consumer_at s = Ranging \<and> devices s = [] \<and> \<not> closed s)"
proof (cases "consumer_at s")
  case Ranging
  with assms(1) show ?thesis
    by (cases "devices s") (simp_all add: consumer_step_def split: if_splits)
next
  case (Holding d)
  with assms(1) show ?thesis by (simp add: consumer_step_def)
qed (use assms in simp_all)

lemma stuck_finished:
  assumes inv: "listing_inv env w ds s" and st: "stuck env s"
  shows "main_at s = Finished"
proof (rule ccontr)
  assume nf: "main_at s \<noteq> Finished"
  from st have m: "main_step s = None" and c: "consumer_step env s = None"
    by (simp_all add: stuck_def)
  from inv have c1: "main_at s = Visiting \<or> main_at s = Waiting \<or> main_at s = Finished"
    and c2: "consumer_at s \<noteq> NotStarted"
    and c3: "main_at s \<noteq> Visiting \<longrightarrow> closed s \<and> unvisited s = []"
    and c4: "consumer_at s = Exited \<longrightarrow> finish s = 0 \<and> closed s \<and> devices s = []"
    and c5: "main_at s = Visiting \<longrightarrow> \<not> closed s"
    unfolding listing_inv_def by blast+
  note cons = consumer_blocked [OF c c2]
  show False
  proof (cases "main_at s = Visiting")
    case True
    with c4 c5 cons have d: "devices s = []" by blast
    from True m d show False
      by (cases "unvisited s") (simp_all add: main_step_def)
  next
    case False
    with nf c1 c3 have w: "main_at s = Waiting" and cl: "closed s" by blast+
    with cons c4 have "finish s = 0" by blast
    with w m show False by (simp add: main_step_def)
  qed
qed

lemma finished_response:
  assumes inv: "listing_inv env w ds s" and fin: "main_at s = Finished"
  shows "written w (listing_response s) =
           [HeaderSet ''Content-Type'' ''application/json'', Write open_token]
           @ entries_calls env False ds @ [Write close_token, Flush]"
proof -
  from inv fin have "consumer_at s = Exited \<and> unvisited s = []"
    unfolding listing_inv_def by simp
  moreover with inv have "devices s = []"
    unfolding listing_inv_def by simp
  ultimately have "pending s = []" by (simp add: pending_def)
  with fin have "to_come env s = []" by (simp add: to_come_def)
  moreover from inv have "rw_calls (listing_response s) @ to_come env s =
          rw_calls w @ [HeaderSet ''Content-Type'' ''application/json'', Write open_token]
          @ entries_calls env False ds @ [Write close_token, Flush]"
    unfolding listing_inv_def by simp
  ultimately show ?thesis by (simp add: written_def)
qed


lemma entries_calls_True:
  "entries_calls env True ds = concat (map (\<lambda>x. [Write '','', Write (entry env x), Flush]) ds)"
  by (induction ds) simp_all

lemma entries_calls_listing:
  "[HeaderSet ''Content-Type'' ''application/json'', Write open_token]
   @ entries_calls env False ds @ [Write close_token, Flush] = listing_calls env ds"
  by (cases ds) (simp_all add: listing_calls_def entries_calls_True)

lemma body_of_simps:
  "body_of [] = []"
  "body_of (c # cs) = payload_of c @ body_of cs"
  "body_of (xs @ ys) = body_of xs @ body_of ys"
  by (simp_all add: body_of_def)

lemma body_of_separated:
  "body_of (concat (map (\<lambda>x. [Write '','', Write (entry env x), Flush]) ds))
     = concat (map (\<lambda>x. '','' @ entry env x) ds)"
  by (induction ds) (simp_all add: body_of_simps)

lemma body_of_listing_calls: "body_of (listing_calls env ds) = listing_body env ds"
  by (cases ds)
     (simp_all add: listing_calls_def listing_body_def body_of_simps body_of_separated)

lemma run_reachable: "(step env)\<^sup>*\<^sup>* s (run n env s)"
proof (induction n arbitrary: s)
  case 0
  show ?case by simp
next
  case (Suc n)
  show ?case
  proof (cases "consumer_step env s")
    case (Some s')
    then have "step env s s'" by (simp add: step_def)
    with Suc [of s'] Some show ?thesis
      by (simp add: converse_rtranclp_into_rtranclp)
  next
    case None
    show ?thesis
    proof (cases "main_step s")
      case (Some s')
      then have "step env s s'" by (simp add: step_def)
      with Suc [of s'] Some None show ?thesis
        by (simp add: converse_rtranclp_into_rtranclp)
    next
      case none: None
      with None show ?thesis by simp
    qed
  qed
qed

lemma run_stuck: "weight s \<le> n \<Longrightarrow> stuck env (run n env s)"
proof (induction n arbitrary: s)
  case 0
  have "main_step s = None"
  proof (cases "main_step s")
    case (Some s')
    from main_step_weight [OF Some] 0 show ?thesis by simp
  qed simp
  moreover have "consumer_step env s = None"
  proof (cases "consumer_step env s")
    case (Some s')
    from consumer_step_weight [OF Some] 0 show ?thesis by simp
  qed simp
  ultimately show ?case by (simp add: stuck_def)
next
  case (Suc n)
  show ?case
  proof (cases "consumer_step env s")
    case (Some s')
    from consumer_step_weight [OF Some] Suc.prems have "weight s' \<le> n" by simp
    from Suc.IH [OF this] Some show ?thesis by simp
  next
    case None
    show ?thesis
    proof (cases "main_step s")
      case (Some s')
      from main_step_weight [OF Some] Suc.prems have "weight s' \<le> n" by simp
      from Suc.IH [OF this] Some None show ?thesis by simp
    next
      case none: None
      with None show ?thesis by (simp add: stuck_def)
    qed
  qed
qed

lemma complete_run_response:
  assumes "rw_Flusher w" and "rw_Write_err w open_token = None"
    and "(step env)\<^sup>*\<^sup>* (NewDeviceListHandler w ds) s" and "stuck env s"
  shows "main_at s = Finished" and "written w (listing_response s) = listing_calls env ds"
proof -
  from inv_start [OF assms(1,2)] have "listing_inv env w ds (NewDeviceListHandler w ds)" .
  with assms(3) have inv: "listing_inv env w ds s" by (rule inv_reachable)
  from inv assms(4) show fin: "main_at s = Finished" by (rule stuck_finished)
  from finished_response [OF inv fin] show "written w (listing_response s) = listing_calls env ds"
    by (simp only: entries_calls_listing)
qed

lemma buffer_bounded:
  assumes "rw_Flusher w" and "rw_Write_err w open_token = None"
    and "(step env)\<^sup>*\<^sup>* (NewDeviceListHandler w ds) s"
  shows "length (devices s) \<le> 100"
proof -
  from inv_start [OF assms(1,2)] have "listing_inv env w ds (NewDeviceListHandler w ds)" .
  with assms(3) have "listing_inv env w ds s" by (rule inv_reachable)
  then show ?thesis unfolding listing_inv_def by simp
qed


lemma example_weight:
  "weight (NewDeviceListHandler example_writer example_devices) = 12"
  by (simp add: NewDeviceListHandler_def weight_def example_writer_def example_devices_def)

lemma example_body:
  "listing_body example_listing_env example_devices =
     open_token
     @ CHR ''{'' # dquote # ''id'' @ dquote # '': '' @ dquote # ''mac:01'' @ [dquote, CHR ''}'']
     @ '','' @ CHR ''{'' # dquote # ''id'' @ dquote # '': '' @ dquote # ''mac:02'' @ [dquote, CHR ''}'']
     @ '','' @ CHR ''{'' # dquote # ''id'' @ dquote # '': '' @ dquote # ''mac:03'' @ [dquote, CHR ''}'']
     @ close_token"
  by (simp add: listing_body_def entry_def example_listing_env_def example_devices_def dquote_def)

lemma bad_entry:
  "entry example_listing_env quoted_device =
     dquote # ''Unable to marshal device [a'' @ dquote # ''b] as JSON: json: error calling MarshalJSON''
     @ [dquote]"
  by (simp add: entry_def example_listing_env_def quoted_device_def marshal_message_def
        Sprint_error_def)

lemma json_string_plain:
  "json_string (dquote # ''Unable to marshal device [mac:01] as JSON: EOF'' @ [dquote])"
  by (simp add: json_string_def dquote_def)

lemma bad_entry_not_json: "\<not> json_string (entry example_listing_env quoted_device)"
  unfolding bad_entry by (simp add: json_string_def dquote_def)


text \<open>
  C5. For a response writer that implements \<open>http.Flusher\<close> and takes the opening token,
  and for every list of devices that \<open>VisitAll\<close> yields, of any length: no schedule of the
  two goroutines runs forever, some schedule runs to the end, the channel never holds more
  than 100 devices, and every run that can go no further has finished with exactly the
  calls of a complete listing on the response writer: the opening token, one entry and a
  flush for each device in order, a comma before every entry but the first, and only then
  the closing token and its flush.
\<close>

theorem device_listing_complete:
  "rw_Flusher w \<and> rw_Write_err w open_token = None \<longrightarrow>
     wf {(s', s). step env s s'}
     \<and> (\<exists>s. (step env)\<^sup>*\<^sup>* (NewDeviceListHandler w ds) s \<and> stuck env s)
     \<and> (\<forall>s. (step env)\<^sup>*\<^sup>* (NewDeviceListHandler w ds) s \<longrightarrow> length (devices s) \<le> 100)
     \<and> (\<forall>s. (step env)\<^sup>*\<^sup>* (NewDeviceListHandler w ds) s \<and> stuck env s \<longrightarrow>
           main_at s = Finished
           \<and> written w (listing_response s) = listing_calls env ds
           \<and> body_of (written w (listing_response s)) = listing_body env ds)"
proof (intro impI conjI allI)
  show "wf {(s', s). step env s s'}" by (rule wf_step)
next
  have "(step env)\<^sup>*\<^sup>* (NewDeviceListHandler w ds)
          (run (weight (NewDeviceListHandler w ds)) env (NewDeviceListHandler w ds))"
    by (rule run_reachable)
  moreover have "stuck env (run (weight (NewDeviceListHandler w ds)) env (NewDeviceListHandler w ds))"
    by (rule run_stuck) simp
  ultimately show "\<exists>s. (step env)\<^sup>*\<^sup>* (NewDeviceListHandler w ds) s \<and> stuck env s"
    by blast
next
  fix s
  assume "rw_Flusher w \<and> rw_Write_err w open_token = None"
    and "(step env)\<^sup>*\<^sup>* (NewDeviceListHandler w ds) s"
  then show "length (devices s) \<le> 100"
    using buffer_bounded [of w env ds s] by blast
next
  fix s
  assume a: "rw_Flusher w \<and> rw_Write_err w open_token = None"
    and b: "(step env)\<^sup>*\<^sup>* (NewDeviceListHandler w ds) s \<and> stuck env s"
  from a b show "main_at s = Finished"
    using complete_run_response(1) [of w env ds s] by blast
  from a b have c: "written w (listing_response s) = listing_calls env ds"
    using complete_run_response(2) [of w env ds s] by blast
  then show "written w (listing_response s) = listing_calls env ds" .
  from c show "body_of (written w (listing_response s)) = listing_body env ds"
    by (simp add: body_of_listing_calls)
qed

theorem device_listing_complete_witness:
  "rw_Flusher example_writer \<and> rw_Write_err example_writer open_token = None
   \<and> (step example_listing_env)\<^sup>*\<^sup>* (NewDeviceListHandler example_writer example_devices)
        (run 12 example_listing_env (NewDeviceListHandler example_writer example_devices))
   \<and> stuck example_listing_env
        (run 12 example_listing_env (NewDeviceListHandler example_writer example_devices))
   \<and> body_of (written example_writer (listing_response
        (run 12 example_listing_env (NewDeviceListHandler example_writer example_devices)))) =
     open_token
     @ CHR ''{'' # dquote # ''id'' @ dquote # '': '' @ dquote # ''mac:01'' @ [dquote, CHR ''}'']
     @ '','' @ CHR ''{'' # dquote # ''id'' @ dquote # '': '' @ dquote # ''mac:02'' @ [dquote, CHR ''}'']
     @ '','' @ CHR ''{'' # dquote # ''id'' @ dquote # '': '' @ dquote # ''mac:03'' @ [dquote, CHR ''}'']
     @ close_token"
proof -
  let ?s = "run 12 example_listing_env (NewDeviceListHandler example_writer example_devices)"
  have f: "rw_Flusher example_writer \<and> rw_Write_err example_writer open_token = None"
    by (simp add: example_writer_def)
  have r: "(step example_listing_env)\<^sup>*\<^sup>*
             (NewDeviceListHandler example_writer example_devices) ?s"
    by (rule run_reachable)
  have st: "stuck example_listing_env ?s"
    by (rule run_stuck) (simp add: example_weight)
  from device_listing_complete
      [where w = example_writer and env = example_listing_env and ds = example_devices,
       THEN mp, OF f, THEN conjunct2, THEN conjunct2, THEN conjunct2, rule_format,
       OF conjI [OF r st], THEN conjunct2, THEN conjunct2]
  have "body_of (written example_writer (listing_response ?s))
          = listing_body example_listing_env example_devices" .
  with f r st show ?thesis by (simp only: example_body simp_thms)
qed

text \<open>
  C10 at a device whose identifier holds a double quote and on which \<open>json.Marshal\<close>
  fails. The handler does not skip it: the entry is the message between double quotes, and
  it is the whole of the array. But the message is written as it is, so the entry is not
  a JSON string, and the response is not well-formed JSON.
\<close>

theorem marshal_failure_entry_not_json:
  "json_Marshal example_listing_env quoted_device = Inl (ErrorString ''json: error calling MarshalJSON'')
   \<and> entry example_listing_env quoted_device =
       dquote # ''Unable to marshal device [a'' @ dquote
         # ''b] as JSON: json: error calling MarshalJSON'' @ [dquote]
   \<and> \<not> json_string (entry example_listing_env quoted_device)
   \<and> body_of (written example_writer (listing_response
        (run 6 example_listing_env (NewDeviceListHandler example_writer [quoted_device]))))
       = open_token @ entry example_listing_env quoted_device @ close_token"
proof -
  let ?s = "run 6 example_listing_env (NewDeviceListHandler example_writer [quoted_device])"
  have f: "rw_Flusher example_writer" "rw_Write_err example_writer open_token = None"
    by (simp_all add: example_writer_def)
  have r: "(step example_listing_env)\<^sup>*\<^sup>*
             (NewDeviceListHandler example_writer [quoted_device]) ?s"
    by (rule run_reachable)
  have st: "stuck example_listing_env ?s"
    by (rule run_stuck)
       (simp add: NewDeviceListHandler_def weight_def example_writer_def)
  from complete_run_response(2) [OF f r st]
  have "body_of (written example_writer (listing_response ?s))
          = listing_body example_listing_env [quoted_device]"
    by (simp add: body_of_listing_calls)
  then have b: "body_of (written example_writer (listing_response ?s))
          = open_token @ entry example_listing_env quoted_device @ close_token"
    by (simp add: listing_body_def)
  have m: "json_Marshal example_listing_env quoted_device
             = Inl (ErrorString ''json: error calling MarshalJSON'')"
    by (simp add: example_listing_env_def quoted_device_def)
  from m bad_entry bad_entry_not_json b show ?thesis by (simp only: simp_thms)
qed


end
